theory Spec2Isabelle
  imports Complex_Main "HOL-Library.Word" "HOL-Library.Extended_Nat"
begin

unbundle bit_operations_syntax

section \<open>Context scopes (packages/koishi-core/src/context.ts)\<close>

text \<open>
  Every \<^verbatim>\<open>throw new Error(errors.X)\<close> of the sources is the value \<open>Inl X\<close>; reading a
  property of \<^verbatim>\<open>null\<close> or \<^verbatim>\<open>undefined\<close>, which JavaScript answers with a
  \<^verbatim>\<open>TypeError\<close>, is \<open>Inl TypeError\<close>.
\<close>

datatype error =
    TypeError
  | INVALID_IDENTIFIER
  | INVALID_SUBCOMMAND
  | INVALID_CONTEXT
  | EXPECT_COMMAND_NAME
  | DUPLICATE_COMMAND

text \<open>
  \<^verbatim>\<open>type Subscope = [number[], number[]]\<close>: the pair \<open>(include, exclude)\<close>, either of
  which may be \<^verbatim>\<open>null\<close> (\<open>None\<close>). Ids are account numbers, modelled as integers; the
  model follows the code for ids of magnitude below \<open>2^53\<close>, which a number holds exactly.
  \<^verbatim>\<open>type ContextScope = Subscope[]\<close>, one entry per identity type.
\<close>

type_synonym Subscope = "int list option \<times> int list option"
type_synonym ContextScope = "Subscope list"

datatype ContextType = User | Group | Discuss

text \<open>
  Modelled from the spec: the table \<^verbatim>\<open>contextTypes\<close> of \<^verbatim>\<open>./meta\<close>, which is not among
  the sources, read from a type to its position in a scope. The identity types are the fixed
  enumeration user, group, discuss.
\<close>

fun contextTypes :: "ContextType \<Rightarrow> nat" where
  "contextTypes User = 0"
| "contextTypes Group = 1"
| "contextTypes Discuss = 2"

text \<open>
  Modelled from the spec: the same table \<^verbatim>\<open>contextTypes\<close>, read from a position to the
  type's name as \<^verbatim>\<open>stringify\<close> does; a position without a type gives \<^verbatim>\<open>undefined\<close>,
  which a template literal prints as such.
\<close>

definition contextTypeName :: "nat \<Rightarrow> string" where
  "contextTypeName index =
     (if index = 0 then ''user'' else if index = 1 then ''group''
      else if index = 2 then ''discuss'' else ''undefined'')"

subsection \<open>Id collections (koishi-utils)\<close>

text \<open>
  Modelled from the spec: \<^verbatim>\<open>union\<close> of \<^verbatim>\<open>koishi-utils\<close>, which is not among the sources
  (the name \<open>union\<close> is taken in HOL). The specification: all set operations over id
  collections treat ids as an unordered set; the order of the result is irrelevant.
\<close>

definition union_ids :: "int list \<Rightarrow> int list \<Rightarrow> int list" where
  "union_ids a b = a @ filter (\<lambda>x. x \<notin> set a) b"

text \<open>
  Modelled from the spec: \<^verbatim>\<open>intersection\<close> of \<^verbatim>\<open>koishi-utils\<close>, which is not among the
  sources; a set operation as above.
\<close>

definition intersection :: "int list \<Rightarrow> int list \<Rightarrow> int list" where
  "intersection a b = filter (\<lambda>x. x \<in> set b) a"

text \<open>
  Modelled from the spec: \<^verbatim>\<open>difference\<close> of \<^verbatim>\<open>koishi-utils\<close>, which is not among the
  sources; a set operation as above.
\<close>

definition difference :: "int list \<Rightarrow> int list \<Rightarrow> int list" where
  "difference a b = filter (\<lambda>x. x \<notin> set b) a"

text \<open>
  Modelled from the spec: \<^verbatim>\<open>contain\<close> of \<^verbatim>\<open>koishi-utils\<close>, which is not among the
  sources. The specification: \<^verbatim>\<open>contain(a, b)\<close>: every id of \<^verbatim>\<open>a\<close> is in \<^verbatim>\<open>b\<close>.
\<close>

definition contain :: "int list \<Rightarrow> int list \<Rightarrow> bool" where
  "contain a b = list_all (\<lambda>x. x \<in> set b) a"

text \<open>
  The test with the roles of its arguments exchanged: the first collection holds every id of
  the second. This is the reading under which the calls \<^verbatim>\<open>contain(include1, include2)\<close>
  and \<^verbatim>\<open>contain(exclude2, exclude1)\<close> of \<^verbatim>\<open>Context.contain\<close> ask whether \<^verbatim>\<open>this\<close>
  matches whatever \<^verbatim>\<open>ctx\<close> matches.
\<close>

definition contain_rev :: "int list \<Rightarrow> int list \<Rightarrow> bool" where
  "contain_rev a b = list_all (\<lambda>x. x \<in> set a) b"

subsection \<open>The algebra on one Subscope\<close>

text \<open>
  The bodies of the \<^verbatim>\<open>map\<close> callbacks of \<^verbatim>\<open>Context.inverse\<close>, \<^verbatim>\<open>plus\<close>,
  \<^verbatim>\<open>minus\<close> and \<^verbatim>\<open>intersect\<close>. \<^verbatim>\<open>include ? .. : ..\<close> tests for \<^verbatim>\<open>null\<close>: an
  array, empty or not, is truthy. A \<^verbatim>\<open>null\<close> list that the callback hands to
  \<^verbatim>\<open>slice\<close> or to a koishi-utils function is a \<open>TypeError\<close>.
\<close>

fun inverse_sub :: "Subscope \<Rightarrow> error + Subscope" where
  "inverse_sub (Some include1, exclude1) = Inr (None, Some include1)"
| "inverse_sub (None, Some exclude1) = Inr (Some exclude1, Some [])"
| "inverse_sub (None, None) = Inl TypeError"

fun plus_sub :: "Subscope \<Rightarrow> Subscope \<Rightarrow> error + Subscope" where
  "plus_sub (Some include1, exclude1) (Some include2, exclude2) =
     Inr (Some (union_ids include1 include2), None)"
| "plus_sub (Some include1, exclude1) (None, Some exclude2) =
     Inr (None, Some (difference exclude2 include1))"
| "plus_sub (None, Some exclude1) (Some include2, exclude2) =
     Inr (None, Some (difference exclude1 include2))"
| "plus_sub (None, Some exclude1) (None, Some exclude2) =
     Inr (None, Some (intersection exclude1 exclude2))"
| "plus_sub s1 s2 = Inl TypeError"

fun minus_sub :: "Subscope \<Rightarrow> Subscope \<Rightarrow> error + Subscope" where
  "minus_sub (Some include1, exclude1) (Some include2, exclude2) =
     Inr (Some (difference include1 include2), None)"
| "minus_sub (Some include1, exclude1) (None, Some exclude2) =
     Inr (Some (intersection include1 exclude2), None)"
| "minus_sub (None, Some exclude1) (Some include2, exclude2) =
     Inr (None, Some (union_ids include2 exclude1))"
| "minus_sub (None, Some exclude1) (None, Some exclude2) =
     Inr (Some (difference exclude2 exclude1), None)"
| "minus_sub s1 s2 = Inl TypeError"

fun intersect_sub :: "Subscope \<Rightarrow> Subscope \<Rightarrow> error + Subscope" where
  "intersect_sub (Some include1, exclude1) (Some include2, exclude2) =
     Inr (Some (intersection include1 include2), None)"
| "intersect_sub (Some include1, exclude1) (None, Some exclude2) =
     Inr (Some (difference include1 exclude2), None)"
| "intersect_sub (None, Some exclude1) (Some include2, exclude2) =
     Inr (Some (difference include2 exclude1), None)"
| "intersect_sub (None, Some exclude1) (None, Some exclude2) =
     Inr (None, Some (union_ids exclude1 exclude2))"
| "intersect_sub s1 s2 = Inl TypeError"

text \<open>
  \<^verbatim>\<open>this._scope.map(f)\<close> and \<^verbatim>\<open>this._scope.map((s, index) => f(s, ctx._scope[index]))\<close>:
  destructuring \<^verbatim>\<open>ctx._scope[index]\<close> past the end of the other scope is a \<open>TypeError\<close>.
\<close>

fun map_scope :: "(Subscope \<Rightarrow> error + Subscope) \<Rightarrow> ContextScope \<Rightarrow> error + ContextScope" where
  "map_scope f [] = Inr []"
| "map_scope f (s # ss) =
     (case f s of
        Inl e \<Rightarrow> Inl e
      | Inr r \<Rightarrow> (case map_scope f ss of Inl e \<Rightarrow> Inl e | Inr rs \<Rightarrow> Inr (r # rs)))"

fun map_scope2 ::
  "(Subscope \<Rightarrow> Subscope \<Rightarrow> error + Subscope) \<Rightarrow> ContextScope \<Rightarrow> ContextScope \<Rightarrow> error + ContextScope" where
  "map_scope2 f [] ts = Inr []"
| "map_scope2 f (s # ss) [] = Inl TypeError"
| "map_scope2 f (s # ss) (t # ts) =
     (case f s t of
        Inl e \<Rightarrow> Inl e
      | Inr r \<Rightarrow> (case map_scope2 f ss ts of Inl e \<Rightarrow> Inl e | Inr rs \<Rightarrow> Inr (r # rs)))"

subsection \<open>Canonical text form\<close>

text \<open>
  A template literal and \<^verbatim>\<open>Array.prototype.join\<close> render a number with JavaScript's
  \<^verbatim>\<open>ToString\<close>. Ids are account numbers: integers that a JavaScript number holds
  exactly, of magnitude below \<open>2^53\<close>. \<^verbatim>\<open>ToString\<close> prints such an id as its decimal
  digits, after a minus sign when negative, and \<open>Number_toString\<close> is \<^verbatim>\<open>ToString\<close> on
  these ids only: a larger number is rounded by its type and printed with an exponent from
  \<open>10^21\<close> on, which this function does not follow.
\<close>

definition digit_char :: "nat \<Rightarrow> char" where
  "digit_char d = ''0123456789'' ! d"

fun digits :: "nat \<Rightarrow> string" where
  "digits n = (if n < 10 then [digit_char n] else digits (n div 10) @ [digit_char (n mod 10)])"

declare digits.simps [simp del]

definition Number_toString :: "int \<Rightarrow> string" where
  "Number_toString n = (if n < 0 then CHR ''-'' # digits (nat (- n)) else digits (nat n))"

text \<open>\<^verbatim>\<open>Array.prototype.join\<close>: the empty string for an empty array.\<close>

fun join :: "string \<Rightarrow> string list \<Rightarrow> string" where
  "join sep [] = []"
| "join sep [a] = a"
| "join sep (a # b # bs) = a @ sep @ join sep (b # bs)"

text \<open>
  The callback of \<^verbatim>\<open>ContextScope.stringify\<close>: the sign, the type's name, a colon and
  the ids. \<^verbatim>\<open>include || exclude\<close> is \<^verbatim>\<open>null\<close> when both are, and \<^verbatim>\<open>null.join\<close> is
  a \<open>TypeError\<close>.
\<close>

fun stringify_sub :: "nat \<Rightarrow> Subscope \<Rightarrow> error + string" where
  "stringify_sub index (Some include1, exclude1) =
     Inr (''+'' @ contextTypeName index @ '':'' @ join '','' (map Number_toString include1))"
| "stringify_sub index (None, Some exclude1) =
     Inr (''-'' @ contextTypeName index @ '':'' @ join '','' (map Number_toString exclude1))"
| "stringify_sub index (None, None) = Inl TypeError"

fun stringify_from :: "nat \<Rightarrow> ContextScope \<Rightarrow> error + string list" where
  "stringify_from index [] = Inr []"
| "stringify_from index (s # ss) =
     (case stringify_sub index s of
        Inl e \<Rightarrow> Inl e
      | Inr a \<Rightarrow> (case stringify_from (Suc index) ss of Inl e \<Rightarrow> Inl e | Inr as \<Rightarrow> Inr (a # as)))"

text \<open>\<^verbatim>\<open>scope.map(...).filter(a => a).join(';')\<close>: the filter drops empty strings.\<close>

definition stringify :: "ContextScope \<Rightarrow> error + string" where
  "stringify scope =
     (case stringify_from 0 scope of
        Inl e \<Rightarrow> Inl e
      | Inr segments \<Rightarrow> Inr (join '';'' (filter (\<lambda>a. a \<noteq> []) segments)))"

definition noopScope :: ContextScope where
  "noopScope = [(Some [], None), (Some [], None), (Some [], None)]"

subsection \<open>Context\<close>

text \<open>
  \<^verbatim>\<open>class Context\<close>, reduced to the two fields the algebra reads: \<^verbatim>\<open>identifier\<close> and
  \<^verbatim>\<open>_scope\<close>.
\<close>

record Context =
  "identifier" :: string
  scope :: ContextScope

text \<open>
  Modelled from the spec: \<^verbatim>\<open>App._createContext\<close> (\<^verbatim>\<open>./app\<close>), which is not among the
  sources. The specification: a Context is the tuple of its ScopeSets plus a derived string
  identifier, its canonical text form.
\<close>

definition createContext :: "ContextScope \<Rightarrow> error + Context" where
  "createContext sc =
     (case stringify sc of
        Inl e \<Rightarrow> Inl e
      | Inr i \<Rightarrow> Inr \<lparr>identifier = i, scope = sc\<rparr>)"

definition Context_inverse :: "Context \<Rightarrow> error + Context" where
  "Context_inverse this =
     (case map_scope inverse_sub (scope this) of Inl e \<Rightarrow> Inl e | Inr sc \<Rightarrow> createContext sc)"

definition Context_plus :: "Context \<Rightarrow> Context \<Rightarrow> error + Context" where
  "Context_plus this ctx =
     (case map_scope2 plus_sub (scope this) (scope ctx) of
        Inl e \<Rightarrow> Inl e | Inr sc \<Rightarrow> createContext sc)"

definition Context_minus :: "Context \<Rightarrow> Context \<Rightarrow> error + Context" where
  "Context_minus this ctx =
     (case map_scope2 minus_sub (scope this) (scope ctx) of
        Inl e \<Rightarrow> Inl e | Inr sc \<Rightarrow> createContext sc)"

definition Context_intersect :: "Context \<Rightarrow> Context \<Rightarrow> error + Context" where
  "Context_intersect this ctx =
     (case map_scope2 intersect_sub (scope this) (scope ctx) of
        Inl e \<Rightarrow> Inl e | Inr sc \<Rightarrow> createContext sc)"

text \<open>
  The event identity a Context is matched against: \<^verbatim>\<open>meta.$ctxType\<close> and
  \<^verbatim>\<open>meta.$ctxId\<close>.
\<close>

record Meta =
  ctxType :: ContextType
  ctxId :: int

fun match_sub :: "Subscope \<Rightarrow> int \<Rightarrow> error + bool" where
  "match_sub (Some include1, exclude1) i = Inr (i \<in> set include1)"
| "match_sub (None, Some exclude1) i = Inr (i \<notin> set exclude1)"
| "match_sub (None, None) i = Inl TypeError"

definition Context_match :: "Context \<Rightarrow> Meta \<Rightarrow> error + bool" where
  "Context_match this meta =
     (let index = contextTypes (ctxType meta) in
      if index < length (scope this) then match_sub (scope this ! index) (ctxId meta)
      else Inl TypeError)"

text \<open>
  \<^verbatim>\<open>Context.contain\<close>. The id-collection test it calls, \<^verbatim>\<open>contain\<close> of koishi-utils, is
  the argument \<open>cont\<close>. \<^verbatim>\<open>include2 && ...\<close> is falsy when \<^verbatim>\<open>include2\<close> is \<^verbatim>\<open>null\<close>;
  a \<^verbatim>\<open>null\<close> list handed to a koishi-utils function is a \<open>TypeError\<close>, as above;
  \<^verbatim>\<open>every\<close> stops at the first entry that answers false.
\<close>

fun contain_sub :: "(int list \<Rightarrow> int list \<Rightarrow> bool) \<Rightarrow> Subscope \<Rightarrow> Subscope \<Rightarrow> error + bool" where
  "contain_sub cont (Some include1, exclude1) (Some include2, exclude2) =
     Inr (cont include1 include2)"
| "contain_sub cont (Some include1, exclude1) (None, exclude2) = Inr False"
| "contain_sub cont (None, Some exclude1) (Some include2, exclude2) =
     Inr (length (intersection include2 exclude1) = 0)"
| "contain_sub cont (None, Some exclude1) (None, Some exclude2) =
     Inr (cont exclude2 exclude1)"
| "contain_sub cont s1 s2 = Inl TypeError"

fun every_scope2 ::
  "(Subscope \<Rightarrow> Subscope \<Rightarrow> error + bool) \<Rightarrow> ContextScope \<Rightarrow> ContextScope \<Rightarrow> error + bool" where
  "every_scope2 p [] ts = Inr True"
| "every_scope2 p (s # ss) [] = Inl TypeError"
| "every_scope2 p (s # ss) (t # ts) =
     (case p s t of
        Inl e \<Rightarrow> Inl e
      | Inr b \<Rightarrow> if b then every_scope2 p ss ts else Inr False)"

definition Context_contain :: "(int list \<Rightarrow> int list \<Rightarrow> bool) \<Rightarrow> Context \<Rightarrow> Context \<Rightarrow> error + bool" where
  "Context_contain cont this ctx = every_scope2 (contain_sub cont) (scope this) (scope ctx)"

subsection \<open>Well-formed scopes\<close>

text \<open>
  A Subscope the algebra can read has an include list or an exclude list; the data-model
  invariant asks for exactly one of the two. A scope has one Subscope per identity type.
\<close>

fun usable :: "Subscope \<Rightarrow> bool" where
  "usable (None, None) = False"
| "usable s = True"

fun exactly_one :: "Subscope \<Rightarrow> bool" where
  "exactly_one (Some include1, None) = True"
| "exactly_one (None, Some exclude1) = True"
| "exactly_one s = False"

definition valid_scope :: "ContextScope \<Rightarrow> bool" where
  "valid_scope sc = (length sc = 3 \<and> list_all usable sc)"

subsection \<open>Parsing the canonical text form\<close>

text \<open>
  \<^verbatim>\<open>String.prototype.split\<close> at a one-character separator: the pieces between the
  separators, \<^verbatim>\<open>['']\<close> for the empty string.
\<close>

fun String_split :: "char \<Rightarrow> string \<Rightarrow> string list" where
  "String_split sep [] = [[]]"
| "String_split sep (c # cs) =
     (if c = sep then [] # String_split sep cs
      else (case String_split sep cs of
              [] \<Rightarrow> [[c]]
            | w # ws \<Rightarrow> (c # w) # ws))"

definition strip_prefix :: "string \<Rightarrow> string \<Rightarrow> string option" where
  "strip_prefix p s = (if take (length p) s = p then Some (drop (length p) s) else None)"

text \<open>
  The regular expression \<^verbatim>\<open>/^([+-])(user|group|discuss):(.+)$/\<close>: the captures
  \<^verbatim>\<open>sign\<close>, \<^verbatim>\<open>type\<close> and \<^verbatim>\<open>list\<close>, or \<open>None\<close> when \<^verbatim>\<open>exec\<close> answers
  \<^verbatim>\<open>null\<close>. \<^verbatim>\<open>.+\<close> asks for at least one character, and the dot matches no line
  terminator (line feed and carriage return, among single-byte characters).
\<close>

definition line_terminator :: "char \<Rightarrow> bool" where
  "line_terminator c = (c = CHR 0x0A \<or> c = CHR 0x0D)"

definition capture_type :: "string \<Rightarrow> (ContextType \<times> string) option" where
  "capture_type s =
     (case strip_prefix ''user:'' s of
        Some l \<Rightarrow> Some (User, l)
      | None \<Rightarrow>
          (case strip_prefix ''group:'' s of
             Some l \<Rightarrow> Some (Group, l)
           | None \<Rightarrow>
               (case strip_prefix ''discuss:'' s of
                  Some l \<Rightarrow> Some (Discuss, l)
                | None \<Rightarrow> None)))"

definition capture :: "string \<Rightarrow> (char \<times> ContextType \<times> string) option" where
  "capture segment =
     (case segment of
        [] \<Rightarrow> None
      | sign # s \<Rightarrow>
          if sign = CHR ''+'' \<or> sign = CHR ''-'' then
            (case capture_type s of
               None \<Rightarrow> None
             | Some (type, l) \<Rightarrow>
                 if l = [] \<or> list_ex line_terminator l then None else Some (sign, type, l))
          else None)"

text \<open>
  \<^verbatim>\<open>ContextScope.parse\<close>. The unary plus of \<^verbatim>\<open>n => +n\<close>, JavaScript's conversion of a
  string to a number, is the argument \<open>to_number\<close>; what it makes of a string that is not
  the numeral of an id (\<^verbatim>\<open>NaN\<close>, a fraction) has no counterpart among the ids, and no
  statement below depends on it. The scope starts as a copy of \<^verbatim>\<open>noopScope\<close>; every
  segment overwrites the entry of its type.
\<close>

fun parse_segments :: "(string \<Rightarrow> int) \<Rightarrow> string list \<Rightarrow> ContextScope \<Rightarrow> error + ContextScope" where
  "parse_segments to_number [] sc = Inr sc"
| "parse_segments to_number (segment # segments) sc =
     (case capture segment of
        None \<Rightarrow> Inl INVALID_IDENTIFIER
      | Some (sign, type, l) \<Rightarrow>
          (let idList = map to_number (String_split CHR '','' l) in
           parse_segments to_number segments
             (sc[contextTypes type :=
                   (if sign = CHR ''+'' then (Some idList, None) else (None, Some idList))])))"

definition parse :: "(string \<Rightarrow> int) \<Rightarrow> string \<Rightarrow> error + ContextScope" where
  "parse to_number ident = parse_segments to_number (String_split CHR '';'' ident) noopScope"

text \<open>\<^verbatim>\<open>const noopIdentifier = ContextScope.stringify(noopScope)\<close>\<close>

definition noopIdentifier :: string where
  "noopIdentifier = projr (stringify noopScope)"

section \<open>Commands (packages/koishi-core/src/command.ts)\<close>

text \<open>
  The user record of \<^verbatim>\<open>./database\<close>, reduced to the field the checks read, and
  \<^verbatim>\<open>type UserType <T> = T | ((user: UserData) => T)\<close>.
\<close>

record UserData =
  authority :: int

datatype 'a UserType = Plain 'a | PerUser "UserData \<Rightarrow> 'a"

text \<open>
  \<^verbatim>\<open>interface CommandConfig\<close> without \<^verbatim>\<open>description\<close> and \<^verbatim>\<open>disable\<close>. An absent
  flag is \<open>False\<close>, an absent \<^verbatim>\<open>usageName\<close> is \<open>None\<close>; \<^verbatim>\<open>maxUsage\<close> counts uses
  or is \<^verbatim>\<open>Infinity\<close>.
\<close>

record CommandConfig =
  checkUnknown :: bool
  checkRequired :: bool
  checkArgCount :: bool
  usageName :: "string option"
  authority :: int
  maxUsage :: "enat UserType"
  minInterval :: "int UserType"
  showWarning :: bool

definition defaultConfig :: CommandConfig where
  "defaultConfig =
     \<lparr>checkUnknown = False, checkRequired = False, checkArgCount = False, usageName = None,
      CommandConfig.authority = 1, maxUsage = Plain \<infinity>, minInterval = Plain 0,
      showWarning = True\<rparr>"

text \<open>
  The argument and option descriptors that \<^verbatim>\<open>./parser\<close> (not among the sources) builds,
  with the fields this file reads.
\<close>

record CommandArgument =
  required :: bool
  variadic :: bool
  noSegment :: bool

record CommandOption =
  rawName :: string
  longest :: string
  camels :: "string list"
  required :: bool
  notUsage :: bool
  authority :: int

text \<open>
  Modelled from the spec: the table \<^verbatim>\<open>messages\<close> of \<^verbatim>\<open>./messages\<close>, which is not among
  the sources; its entries are the hints that \<^verbatim>\<open>enum CommandHint\<close> names.
\<close>

datatype message =
    USAGE_EXHAUSTED
  | TOO_FREQUENT
  | LOW_AUTHORITY
  | INSUFFICIENT_ARGUMENTS
  | REDUNANT_ARGUMENTS
  | UNKNOWN_OPTIONS
  | REQUIRED_OPTIONS

text \<open>
  What a command does to its collaborators, in the order it does it:
  \<^verbatim>\<open>app.serialize(meta, name, argv)\<close>, \<^verbatim>\<open>app.parallelize(meta, name, argv)\<close>,
  \<^verbatim>\<open>meta.$send(format(message, ...param))\<close>,
  \<^verbatim>\<open>updateUsage(name, user, { maxUsage, minInterval })\<close> and
  \<^verbatim>\<open>this._action(argv, ...args)\<close>.
\<close>

datatype event =
    Serialize string
  | Parallelize string
  | Send message "string list"
  | UpdateUsage string enat int
  | Action "string list"

text \<open>
  \<^verbatim>\<open>class Command\<close>. A command is known to the others by its position in
  \<^verbatim>\<open>app._commands\<close>: \<^verbatim>\<open>parent\<close> and \<^verbatim>\<open>children\<close> hold positions. A bound action
  is the function from the arguments it is called with to whether it called
  \<^verbatim>\<open>argv.next\<close>.
\<close>

record Command =
  name :: string
  "declaration" :: string
  "context" :: Context
  config :: CommandConfig
  children :: "nat list"
  parent :: "nat option"
  aliases' :: "string list"
  options' :: "CommandOption list"
  userFields' :: "string set"
  argsDef' :: "CommandArgument list"
  action' :: "(string list \<Rightarrow> bool) option"

record MessageMeta = Meta +
  user :: "UserData option"

text \<open>\<^verbatim>\<open>interface ParsedCommandLine extends Partial<ParsedLine>\<close>\<close>

record 'v ParsedCommandLine =
  meta :: MessageMeta
  command :: "Command option"
  args :: "string list option"
  options :: "(string \<rightharpoonup> 'v) option"
  unknown :: "string list option"

text \<open>
  An options object is a plain object, as the \<^verbatim>\<open>{}\<close> of \<^verbatim>\<open>execute\<close>, of
  \<^verbatim>\<open>attachUserFields\<close> and of \<^verbatim>\<open>runCommand\<close> is: a map holds its own properties, and
  it inherits the properties of \<^verbatim>\<open>Object.prototype\<close>, whose names are these.
\<close>

definition Object_prototype :: "string list" where
  "Object_prototype =
     [''constructor'', ''__defineGetter__'', ''__defineSetter__'', ''hasOwnProperty'',
      ''__lookupGetter__'', ''__lookupSetter__'', ''isPrototypeOf'', ''propertyIsEnumerable'',
      ''toString'', ''valueOf'', ''__proto__'', ''toLocaleString'']"

text \<open>
  \<^verbatim>\<open>key in object\<close>, for a plain object: the key is an own property or an inherited one.
\<close>

definition property_in :: "string \<Rightarrow> (string \<rightharpoonup> 'v) \<Rightarrow> bool" where
  "property_in key obj = (key \<in> dom obj \<or> key \<in> set Object_prototype)"

text \<open>
  \<^verbatim>\<open>argv.options || (argv.options = {})\<close> and its two neighbours; the own properties of
  \<^verbatim>\<open>{}\<close> are none.
\<close>

definition options_of :: "'v ParsedCommandLine \<Rightarrow> (string \<rightharpoonup> 'v)" where
  "options_of argv = (case options argv of None \<Rightarrow> Map.empty | Some opts \<Rightarrow> opts)"

definition unknown_of :: "'v ParsedCommandLine \<Rightarrow> string list" where
  "unknown_of argv = (case unknown argv of None \<Rightarrow> [] | Some u \<Rightarrow> u)"

definition args_of :: "'v ParsedCommandLine \<Rightarrow> string list" where
  "args_of argv = (case args argv of None \<Rightarrow> [] | Some a \<Rightarrow> a)"

text \<open>\<^verbatim>\<open>option.camels[0]\<close>, which an empty array answers with \<^verbatim>\<open>undefined\<close>.\<close>

definition first_camel :: "CommandOption \<Rightarrow> string" where
  "first_camel option = (case camels option of [] \<Rightarrow> ''undefined'' | c # cs \<Rightarrow> c)"

subsection \<open>Fields to fetch\<close>





subsection \<open>The checks of execute\<close>

text \<open>\<^verbatim>\<open>get usageName\<close>: an empty \<^verbatim>\<open>config.usageName\<close> is falsy too.\<close>

definition Command_usageName :: "Command \<Rightarrow> string" where
  "Command_usageName this =
     (case usageName (config this) of
        None \<Rightarrow> name this
      | Some u \<Rightarrow> if u = [] then name this else u)"

text \<open>\<^verbatim>\<open>getConfig\<close>, for a user record that is there.\<close>

fun getConfig :: "'a UserType \<Rightarrow> UserData \<Rightarrow> 'a" where
  "getConfig (Plain v) u = v"
| "getConfig (PerUser f) u = f u"

text \<open>
  The loop of \<^verbatim>\<open>_checkUser\<close> over \<^verbatim>\<open>this._options\<close>: \<open>Inl\<close> the message it returns
  early with, or \<open>Inr\<close> the final \<^verbatim>\<open>isUsage\<close>.
\<close>

fun check_options :: "CommandOption list \<Rightarrow> (string \<rightharpoonup> 'v) \<Rightarrow> UserData \<Rightarrow> bool \<Rightarrow> message + bool" where
  "check_options [] opts u isUsage = Inr isUsage"
| "check_options (option # rest) opts u isUsage =
     (if property_in (first_camel option) opts then
        (if CommandOption.authority option > UserData.authority u then Inl LOW_AUTHORITY
         else check_options rest opts u (if notUsage option then False else isUsage))
      else check_options rest opts u isUsage)"

text \<open>
  \<^verbatim>\<open>_checkUser\<close>: the message it returns (\<open>None\<close> for \<^verbatim>\<open>undefined\<close>), after the calls
  it made. \<^verbatim>\<open>updateUsage\<close> of \<^verbatim>\<open>./utils\<close> is not among the sources; what it returns is
  the argument \<open>updateUsage\<close>.
\<close>

definition Command_checkUser ::
  "(string \<Rightarrow> UserData \<Rightarrow> enat \<Rightarrow> int \<Rightarrow> message option) \<Rightarrow> Command \<Rightarrow> MessageMeta \<Rightarrow>
   (string \<rightharpoonup> 'v) \<Rightarrow> event list \<times> message option" where
  "Command_checkUser updateUsage this m opts =
     (case user m of
        None \<Rightarrow> ([], None)
      | Some u \<Rightarrow>
          if CommandConfig.authority (config this) > UserData.authority u
          then ([], Some LOW_AUTHORITY)
          else
            (case check_options (options' this) opts u True of
               Inl low \<Rightarrow> ([], Some low)
             | Inr isUsage \<Rightarrow>
                 if isUsage then
                   (let minInterval1 = getConfig (minInterval (config this)) u;
                        maxUsage1 = getConfig (maxUsage (config this)) u
                    in if maxUsage1 < \<infinity> \<or> minInterval1 > 0 then
                         ([UpdateUsage (Command_usageName this) maxUsage1 minInterval1],
                          updateUsage (Command_usageName this) u maxUsage1 minInterval1)
                       else ([], None))
                 else ([], None)))"

definition Command_sendHint :: "Command \<Rightarrow> message \<Rightarrow> string list \<Rightarrow> event list" where
  "Command_sendHint this msg param = (if showWarning (config this) then [Send msg param] else [])"

text \<open>
  The block \<^verbatim>\<open>// check argument count\<close>: the hint it reports, if any.
  \<^verbatim>\<open>this._argsDef[i]\<close> past the end is \<^verbatim>\<open>undefined\<close>; \<^verbatim>\<open>nextArg?.required\<close> tolerates
  that, \<^verbatim>\<open>finalArg.noSegment\<close> is a \<open>TypeError\<close> then.
\<close>

definition check_arg_count :: "Command \<Rightarrow> string list \<Rightarrow> error + message option" where
  "check_arg_count this as =
     (if checkArgCount (config this) then
        (if length as < length (argsDef' this) \<and>
            CommandArgument.required (argsDef' this ! length as)
         then Inr (Some INSUFFICIENT_ARGUMENTS)
         else if length as > length (argsDef' this) then
           (if argsDef' this = [] then Inl TypeError
            else if \<not> noSegment (last (argsDef' this)) \<and> \<not> variadic (last (argsDef' this))
            then Inr (Some REDUNANT_ARGUMENTS)
            else Inr None)
         else Inr None)
      else Inr None)"

text \<open>
  \<^verbatim>\<open>Command.execute\<close>: the events in order, and the error it threw, if any. The promise
  of \<^verbatim>\<open>app.serialize(argv.meta, 'before-command', argv)\<close> resolves to \<open>serialize argv\<close>.
  The debug log line is left out.
\<close>

definition Command_execute ::
  "('v ParsedCommandLine \<Rightarrow> bool) \<Rightarrow> (string \<Rightarrow> UserData \<Rightarrow> enat \<Rightarrow> int \<Rightarrow> message option) \<Rightarrow>
   Command \<Rightarrow> 'v ParsedCommandLine \<Rightarrow> event list \<times> error option" where
  "Command_execute serialize updateUsage this argv =
     (if serialize argv then ([Serialize ''before-command''], None)
      else
        (case check_arg_count this (args_of argv) of
           Inl e \<Rightarrow> ([Serialize ''before-command''], Some e)
         | Inr (Some hint) \<Rightarrow>
             (Serialize ''before-command'' # Command_sendHint this hint [], None)
         | Inr None \<Rightarrow>
             if checkUnknown (config this) \<and> unknown_of argv \<noteq> [] then
               (Serialize ''before-command'' #
                  Command_sendHint this UNKNOWN_OPTIONS [join '', '' (unknown_of argv)], None)
             else
               (case (if checkRequired (config this) then
                        find (\<lambda>option. CommandOption.required option \<and>
                                        \<not> property_in (longest option) (options_of argv))
                          (options' this)
                      else None) of
                  Some absent \<Rightarrow>
                    (Serialize ''before-command'' #
                       Command_sendHint this REQUIRED_OPTIONS [rawName absent], None)
                | None \<Rightarrow>
                    (case Command_checkUser updateUsage this (meta argv) (options_of argv) of
                       (calls, Some msg) \<Rightarrow>
                         (Serialize ''before-command'' # calls @ Command_sendHint this msg [],
                          None)
                     | (calls, None) \<Rightarrow>
                         (case action' this of
                            None \<Rightarrow>
                              (Serialize ''before-command'' # calls @ [Parallelize ''command''],
                               Some TypeError)
                          | Some act \<Rightarrow>
                              (Serialize ''before-command'' # calls @
                                 [Parallelize ''command'', Action (args_of argv)] @
                                 (if act (args_of argv) then []
                                  else [Parallelize ''after-command'']),
                               None))))))"

section \<open>Registering commands (Context.command)\<close>

text \<open>
  The application state a registration reads and writes: \<^verbatim>\<open>app._commands\<close> and
  \<^verbatim>\<open>app._commandMap\<close>, which maps a name to a command, that is to its position in
  \<^verbatim>\<open>app._commands\<close>.
\<close>

record App =
  commands' :: "Command list"
  commandMap' :: "string \<rightharpoonup> nat"

text \<open>\<^verbatim>\<open>String.prototype.toLowerCase\<close>, on ASCII letters.\<close>

definition lower_char :: "char \<Rightarrow> char" where
  "lower_char c =
     (case map_of (zip ''ABCDEFGHIJKLMNOPQRSTUVWXYZ'' ''abcdefghijklmnopqrstuvwxyz'') c of
        None \<Rightarrow> c
      | Some l \<Rightarrow> l)"

definition toLowerCase :: "string \<Rightarrow> string" where
  "toLowerCase s = map lower_char s"

text \<open>
  \<^verbatim>\<open>split(/(?=[\\./])/)\<close>: the string is cut before every backslash, dot and slash
  but the first character; the empty string gives \<^verbatim>\<open>['']\<close>.
\<close>

definition separator :: "char \<Rightarrow> bool" where
  "separator c = (c = CHR 0x5C \<or> c = CHR ''.'' \<or> c = CHR ''/'')"

fun split_path :: "string \<Rightarrow> string list" where
  "split_path [] = [[]]"
| "split_path [c] = [[c]]"
| "split_path (c # d # cs) =
     (if separator d then [c] # split_path (d # cs)
      else (case split_path (d # cs) of
              [] \<Rightarrow> [[c]]
            | w # ws \<Rightarrow> (c # w) # ws))"

text \<open>
  \<^verbatim>\<open>new Command(name, declaration, context)\<close> with \<^verbatim>\<open>_registerAlias(this.name)\<close>
  and \<^verbatim>\<open>context.app._commands.push(this)\<close>: the new command's position, or the error
  thrown, and the application state after it. \<^verbatim>\<open>parseArguments\<close> of \<^verbatim>\<open>./parser\<close> is
  an argument; the \<^verbatim>\<open>'new-command'\<close> notification is left out. A name that is taken
  belongs to an earlier command, never to the new one.
\<close>

definition new_Command ::
  "(string \<Rightarrow> CommandArgument list) \<Rightarrow> App \<Rightarrow> string \<Rightarrow> string \<Rightarrow> Context \<Rightarrow> (error + nat) \<times> App" where
  "new_Command parseArguments app name1 declaration1 context1 =
     (if name1 = [] then (Inl EXPECT_COMMAND_NAME, app)
      else
        (case commandMap' app (toLowerCase name1) of
           Some previous \<Rightarrow> (Inl DUPLICATE_COMMAND, app)
         | None \<Rightarrow>
             (Inr (length (commands' app)),
              app\<lparr>commandMap' := (commandMap' app)(toLowerCase name1 \<mapsto> length (commands' app)),
                  commands' := commands' app @
                    [\<lparr>name = name1, declaration = declaration1, context = context1,
                      config = defaultConfig, children = [], parent = None,
                      aliases' = [toLowerCase name1], options' = [], userFields' = {},
                      argsDef' = parseArguments declaration1, action' = None\<rparr>]\<rparr>)))"

text \<open>\<^verbatim>\<open>command.parent = parent\<close> and \<^verbatim>\<open>parent.children.push(command)\<close>\<close>

definition link_child :: "App \<Rightarrow> nat \<Rightarrow> nat \<Rightarrow> App" where
  "link_child app c p =
     (let cs = (commands' app)[c := (commands' app ! c)\<lparr>parent := Some p\<rparr>]
      in app\<lparr>commands' := cs[p := (cs ! p)\<lparr>children := children (cs ! p) @ [c]\<rparr>]\<rparr>)"

text \<open>
  The name a path segment stands for. \<^verbatim>\<open>charCodeAt(0)\<close> is 46 for a dot, which
  prefixes \<^verbatim>\<open>parent.name\<close> (a \<open>TypeError\<close> while \<^verbatim>\<open>parent\<close> is \<^verbatim>\<open>null\<close>), and 47
  for a slash, which is dropped.
\<close>

definition segment_name :: "App \<Rightarrow> nat option \<Rightarrow> string \<Rightarrow> error + string" where
  "segment_name app parent1 segment =
     (case segment of
        [] \<Rightarrow> Inr []
      | c # cs \<Rightarrow>
          if c = CHR ''.'' then
            (case parent1 of
               None \<Rightarrow> Inl TypeError
             | Some p \<Rightarrow> Inr (name (commands' app ! p) @ segment))
          else if c = CHR ''/'' then Inr cs
          else Inr segment)"

text \<open>
  The callback of \<^verbatim>\<open>forEach\<close> in \<^verbatim>\<open>Context.command\<close>, for one segment: the new value
  of \<^verbatim>\<open>parent\<close> or the error thrown, and the application state it leaves. \<open>this\<close> is
  the calling Context, \<open>cont\<close> the id-collection test of \<^verbatim>\<open>Context.contain\<close>.
\<close>

definition command_segment ::
  "(int list \<Rightarrow> int list \<Rightarrow> bool) \<Rightarrow> (string \<Rightarrow> CommandArgument list) \<Rightarrow> Context \<Rightarrow> string \<Rightarrow>
   App \<Rightarrow> nat option \<Rightarrow> string \<Rightarrow> (error + nat) \<times> App" where
  "command_segment cont parseArguments this declaration1 app parent1 segment =
     (case segment_name app parent1 segment of
        Inl e \<Rightarrow> (Inl e, app)
      | Inr name1 \<Rightarrow>
          (case commandMap' app name1 of
             Some c \<Rightarrow>
               (case parent1 of
                  None \<Rightarrow> (Inr c, app)
                | Some p \<Rightarrow>
                    if c = p then (Inl INVALID_SUBCOMMAND, app)
                    else
                      (case parent (commands' app ! c) of
                         Some q \<Rightarrow>
                           if q \<noteq> p then (Inl INVALID_SUBCOMMAND, app) else (Inr c, app)
                       | None \<Rightarrow>
                           (case Context_contain cont (context (commands' app ! p))
                                   (context (commands' app ! c)) of
                              Inl e \<Rightarrow> (Inl e, app)
                            | Inr inside \<Rightarrow>
                                if inside then (Inr c, link_child app c p)
                                else (Inl INVALID_CONTEXT, app))))
           | None \<Rightarrow>
               (case (case parent1 of
                        None \<Rightarrow> Inr this
                      | Some p \<Rightarrow> Context_intersect this (context (commands' app ! p))) of
                  Inl e \<Rightarrow> (Inl e, app)
                | Inr context1 \<Rightarrow>
                    if identifier context1 = noopIdentifier then (Inl INVALID_CONTEXT, app)
                    else
                      (case new_Command parseArguments app name1 declaration1 context1 of
                         (Inl e, app1) \<Rightarrow> (Inl e, app1)
                       | (Inr c, app1) \<Rightarrow>
                           (Inr c,
                            case parent1 of
                              None \<Rightarrow> app1
                            | Some p \<Rightarrow> link_child app1 c p)))))"

fun command_segments ::
  "(int list \<Rightarrow> int list \<Rightarrow> bool) \<Rightarrow> (string \<Rightarrow> CommandArgument list) \<Rightarrow> Context \<Rightarrow> string \<Rightarrow>
   App \<Rightarrow> nat option \<Rightarrow> string list \<Rightarrow> (error + nat option) \<times> App" where
  "command_segments cont parseArguments this declaration1 app parent1 [] = (Inr parent1, app)"
| "command_segments cont parseArguments this declaration1 app parent1 (segment # segments) =
     (case command_segment cont parseArguments this declaration1 app parent1 segment of
        (Inl e, app1) \<Rightarrow> (Inl e, app1)
      | (Inr c, app1) \<Rightarrow>
          command_segments cont parseArguments this declaration1 app1 (Some c) segments)"

text \<open>
  \<^verbatim>\<open>Context.command(rawName, config)\<close>: the command it returns or the error it
  throws, and the application state it leaves behind in either case.
  \<^verbatim>\<open>Object.assign(parent.config, config)\<close> is the argument \<open>assign\<close>, a function on
  configurations.
\<close>

definition Context_command ::
  "(int list \<Rightarrow> int list \<Rightarrow> bool) \<Rightarrow> (string \<Rightarrow> CommandArgument list) \<Rightarrow>
   (CommandConfig \<Rightarrow> CommandConfig) \<Rightarrow> Context \<Rightarrow> App \<Rightarrow> string \<Rightarrow> (error + nat) \<times> App" where
  "Context_command cont parseArguments assign this app rawName1 =
     (let path = takeWhile (\<lambda>c. c \<noteq> CHR '' '') rawName1;
          declaration1 = drop (length path) rawName1
      in case command_segments cont parseArguments this declaration1 app None
                (split_path (toLowerCase path)) of
           (Inl e, app1) \<Rightarrow> (Inl e, app1)
         | (Inr None, app1) \<Rightarrow> (Inl TypeError, app1)
         | (Inr (Some p), app1) \<Rightarrow>
             (Inr p,
              app1\<lparr>commands' := (commands' app1)
                [p := (commands' app1 ! p)\<lparr>config := assign (config (commands' app1 ! p))\<rparr>]\<rparr>))"

section \<open>The teach plugin (dialogue/modify)\<close>

text \<open>
  The options and the dialogue record that the handler of \<^verbatim>\<open>'dialogue/modify'\<close> reads and
  writes. An option or a field that is \<^verbatim>\<open>undefined\<close> is \<open>None\<close>; the flag word is a
  32-bit integer, as the bitwise operators of JavaScript make it.
\<close>

record TeachOptions =
  answer :: "string option"
  question :: "string option"
  original :: "string option"
  probabilityStrict :: "real option"
  probabilityAppellative :: "real option"
  keyword :: "bool option"
  redirect :: "bool option"

record Dialogue =
  answer :: "string option"
  question :: "string option"
  original :: "string option"
  probS :: "real option"
  probA :: "real option"
  flag :: "32 word"

text \<open>\<^verbatim>\<open>if (options.answer)\<close>: an empty string is falsy.\<close>

definition truthy :: "string option \<Rightarrow> bool" where
  "truthy s = (case s of None \<Rightarrow> False | Some t \<Rightarrow> t \<noteq> [])"

text \<open>\<^verbatim>\<open>a ?? b\<close>\<close>

definition nullish :: "'a option \<Rightarrow> 'a \<Rightarrow> 'a" where
  "nullish a b = (case a of None \<Rightarrow> b | Some v \<Rightarrow> v)"

text \<open>
  \<^verbatim>\<open>data.flag &= ~bit\<close> followed by \<^verbatim>\<open>data.flag |= +value * bit\<close>, for a boolean
  \<^verbatim>\<open>value\<close>.
\<close>

definition set_flag :: "32 word \<Rightarrow> 32 word \<Rightarrow> bool \<Rightarrow> 32 word" where
  "set_flag f b v = (f AND NOT b) OR (if v then b else 0)"

text \<open>
  The handler registered with \<^verbatim>\<open>ctx.before('dialogue/modify', ...)\<close>, as a function
  from \<^verbatim>\<open>data\<close> to \<^verbatim>\<open>data\<close> after it. \<^verbatim>\<open>DialogueFlag.keyword\<close> and
  \<^verbatim>\<open>DialogueFlag.redirect\<close> of \<^verbatim>\<open>./database\<close> are the arguments \<open>keyword_bit\<close> and
  \<open>redirect_bit\<close>; \<open>target\<close> is \<open>None\<close> when the invocation names no dialogue.
\<close>

definition modify_answer :: "TeachOptions \<Rightarrow> Dialogue \<Rightarrow> Dialogue" where
  "modify_answer opts data =
     (if truthy (TeachOptions.answer opts) then data\<lparr>Dialogue.answer := TeachOptions.answer opts\<rparr>
      else data)"

definition modify_question :: "TeachOptions \<Rightarrow> Dialogue \<Rightarrow> Dialogue" where
  "modify_question opts data =
     (if truthy (TeachOptions.question opts)
      then data\<lparr>Dialogue.question := TeachOptions.question opts,
                 Dialogue.original := TeachOptions.original opts\<rparr>
      else data)"

definition modify_probability :: "TeachOptions \<Rightarrow> 'a option \<Rightarrow> bool \<Rightarrow> Dialogue \<Rightarrow> Dialogue" where
  "modify_probability opts target appellative data =
     (if target = None \<and> appellative then
        (data\<lparr>probS := Some (nullish (probabilityStrict opts) 0)\<rparr>)
          \<lparr>probS := Some (nullish (probabilityAppellative opts) 1)\<rparr>
      else
        (let data1 = (case probabilityStrict opts of
                        None \<Rightarrow> data
                      | Some p \<Rightarrow> data\<lparr>probS := Some p\<rparr>)
         in case probabilityAppellative opts of
              None \<Rightarrow> data1
            | Some p \<Rightarrow> data1\<lparr>probA := Some p\<rparr>))"

definition modify_flags :: "32 word \<Rightarrow> 32 word \<Rightarrow> TeachOptions \<Rightarrow> Dialogue \<Rightarrow> Dialogue" where
  "modify_flags keyword_bit redirect_bit opts data =
     (let data1 = (case keyword opts of
                     None \<Rightarrow> data
                   | Some v \<Rightarrow> data\<lparr>flag := set_flag (flag data) keyword_bit v\<rparr>)
      in case redirect opts of
           None \<Rightarrow> data1
         | Some v \<Rightarrow> data1\<lparr>flag := set_flag (flag data1) redirect_bit v\<rparr>)"

definition dialogue_modify ::
  "32 word \<Rightarrow> 32 word \<Rightarrow> TeachOptions \<Rightarrow> 'a option \<Rightarrow> bool \<Rightarrow> Dialogue \<Rightarrow> Dialogue" where
  "dialogue_modify keyword_bit redirect_bit opts target appellative data =
     modify_flags keyword_bit redirect_bit opts
       (modify_probability opts target appellative
          (modify_question opts (modify_answer opts data)))"

section \<open>Example values\<close>

text \<open>
  Contexts: users 1 and 2 only; user 1 only; everyone but user 2; nobody (the noop
  Context); everyone. And the event identity of user 1.
\<close>

definition ctx_users12 :: Context where
  "ctx_users12 =
     \<lparr>identifier = ''+user:1,2;+group:;+discuss:'',
      scope = [(Some [1, 2], None), (Some [], None), (Some [], None)]\<rparr>"


definition ctx_not_user2 :: Context where
  "ctx_not_user2 =
     \<lparr>identifier = ''-user:2;-group:;-discuss:'',
      scope = [(None, Some [2]), (None, Some []), (None, Some [])]\<rparr>"

definition ctx_noop :: Context where
  "ctx_noop = \<lparr>identifier = ''+user:;+group:;+discuss:'', scope = noopScope\<rparr>"

definition ctx_all :: Context where
  "ctx_all =
     \<lparr>identifier = ''-user:;-group:;-discuss:'',
      scope = [(None, Some []), (None, Some []), (None, Some [])]\<rparr>"

definition meta_user1 :: Meta where
  "meta_user1 = \<lparr>ctxType = User, ctxId = 1\<rparr>"

text \<open>
  A command \<^verbatim>\<open>echo <text>\<close> with one required argument, the required option
  \<^verbatim>\<open>-f, --force\<close> and all three checks switched on, and an invocation of it by a user
  of authority 1.
\<close>

definition example_option :: CommandOption where
  "example_option =
     \<lparr>rawName = ''-f, --force'', longest = ''force'', camels = [''force''],
      CommandOption.required = True, notUsage = False, CommandOption.authority = 2\<rparr>"

definition example_command :: Command where
  "example_command =
     \<lparr>name = ''echo'', declaration = '' <text>'', context = ctx_all,
      config = defaultConfig\<lparr>checkUnknown := True, checkRequired := True, checkArgCount := True\<rparr>,
      children = [], parent = None, aliases' = [''echo''], options' = [example_option],
      userFields' = {},
      argsDef' = [\<lparr>CommandArgument.required = True, variadic = False, noSegment = False\<rparr>],
      action' = Some (\<lambda>as. False)\<rparr>"

definition example_argv :: "string ParsedCommandLine" where
  "example_argv =
     \<lparr>meta = \<lparr>ctxType = User, ctxId = 1, user = Some \<lparr>UserData.authority = 1\<rparr>\<rparr>,
      command = Some example_command, args = Some [''hi''],
      options = Some [''force'' \<mapsto> ''yes''], unknown = Some []\<rparr>"

text \<open>An application in which the one command \<^verbatim>\<open>y\<close> is registered for everyone.\<close>

definition example_app :: App where
  "example_app =
     \<lparr>commands' = [example_command\<lparr>name := ''y'', aliases' := [''y'']\<rparr>],
      commandMap' = [''y'' \<mapsto> 0]\<rparr>"

section \<open>The scope algebra and matching\<close>

lemma set_union_ids [simp]: "set (union_ids a b) = set a \<union> set b"
  by (auto simp: union_ids_def)

lemma set_intersection [simp]: "set (intersection a b) = set a \<inter> set b"
  by (auto simp: intersection_def)

lemma set_difference [simp]: "set (difference a b) = set a - set b"
  by (auto simp: difference_def)

lemma usable_match_sub: "usable s \<Longrightarrow> \<exists>p. match_sub s i = Inr p"
  by (cases "(s, i)" rule: match_sub.cases) auto

lemma intersect_sub_match:
  "usable s \<Longrightarrow> usable t \<Longrightarrow>
   \<exists>r p q. intersect_sub s t = Inr r \<and> usable r \<and> match_sub s i = Inr p \<and>
     match_sub t i = Inr q \<and> match_sub r i = Inr (p \<and> q)"
  by (cases "(s, t)" rule: intersect_sub.cases) auto

lemma plus_sub_match:
  "usable s \<Longrightarrow> usable t \<Longrightarrow>
   \<exists>r p q. plus_sub s t = Inr r \<and> usable r \<and> match_sub s i = Inr p \<and>
     match_sub t i = Inr q \<and> match_sub r i = Inr (p \<or> q)"
  by (cases "(s, t)" rule: plus_sub.cases) auto

lemma minus_sub_match:
  "usable s \<Longrightarrow> usable t \<Longrightarrow>
   \<exists>r p q. minus_sub s t = Inr r \<and> usable r \<and> match_sub s i = Inr p \<and>
     match_sub t i = Inr q \<and> match_sub r i = Inr (p \<and> \<not> q)"
  by (cases "(s, t)" rule: minus_sub.cases) auto

lemma inverse_sub_match:
  "usable s \<Longrightarrow>
   \<exists>r p. inverse_sub s = Inr r \<and> usable r \<and> match_sub s i = Inr p \<and>
     match_sub r i = Inr (\<not> p)"
  by (cases s rule: inverse_sub.cases) auto

lemma map_scope_nth:
  assumes f: "\<And>s. usable s \<Longrightarrow> \<exists>r. f s = Inr r \<and> usable r"
  shows "list_all usable ss \<Longrightarrow>
    \<exists>rs. map_scope f ss = Inr rs \<and> length rs = length ss \<and> list_all usable rs \<and>
      (\<forall>k<length ss. f (ss ! k) = Inr (rs ! k))"
proof (induction ss)
  case Nil
  then show ?case by simp
next
  case (Cons s ss)
  from Cons.prems have "usable s" by simp
  then obtain r where r: "f s = Inr r" "usable r"
    using f by blast
  from Cons obtain rs where rs: "map_scope f ss = Inr rs" "length rs = length ss"
    "list_all usable rs" "\<forall>k<length ss. f (ss ! k) = Inr (rs ! k)"
    by auto
  show ?case using r rs by (auto simp: nth_Cons split: nat.splits)
qed

lemma map_scope2_nth:
  assumes f: "\<And>s t. usable s \<Longrightarrow> usable t \<Longrightarrow> \<exists>r. f s t = Inr r \<and> usable r"
  shows "length ss = length ts \<Longrightarrow> list_all usable ss \<Longrightarrow> list_all usable ts \<Longrightarrow>
    \<exists>rs. map_scope2 f ss ts = Inr rs \<and> length rs = length ss \<and> list_all usable rs \<and>
      (\<forall>k<length ss. f (ss ! k) (ts ! k) = Inr (rs ! k))"
proof (induction ss ts rule: list_induct2)
  case Nil
  then show ?case by simp
next
  case (Cons s ss t ts)
  from Cons.prems have "usable s" "usable t" by simp_all
  then obtain r where r: "f s t = Inr r" "usable r"
    using f by blast
  from Cons obtain rs where rs: "map_scope2 f ss ts = Inr rs" "length rs = length ss"
    "list_all usable rs" "\<forall>k<length ss. f (ss ! k) (ts ! k) = Inr (rs ! k)"
    by auto
  show ?case using r rs by (auto simp: nth_Cons split: nat.splits)
qed

lemma stringify_sub_usable: "usable s \<Longrightarrow> \<exists>a. stringify_sub k s = Inr a"
  by (cases "(k, s)" rule: stringify_sub.cases) auto

lemma stringify_from_usable: "list_all usable sc \<Longrightarrow> \<exists>as. stringify_from k sc = Inr as"
proof (induction sc arbitrary: k)
  case Nil
  then show ?case by simp
next
  case (Cons s sc)
  then have "usable s" by simp
  then obtain a where "stringify_sub k s = Inr a"
    using stringify_sub_usable by blast
  moreover from Cons obtain as where "stringify_from (Suc k) sc = Inr as"
    by auto
  ultimately show ?case by simp
qed

lemma createContext_usable:
  "list_all usable sc \<Longrightarrow> \<exists>c. createContext sc = Inr c \<and> scope c = sc"
  using stringify_from_usable [of sc 0] by (auto simp: createContext_def stringify_def)

lemma valid_scope_match:
  assumes "valid_scope (scope a)"
  shows "Context_match a x = match_sub (scope a ! contextTypes (ctxType x)) (ctxId x)"
    and "contextTypes (ctxType x) < 3" and "usable (scope a ! contextTypes (ctxType x))"
  using assms by (cases "ctxType x"; simp add: valid_scope_def Context_match_def list_all_length)+


text \<open>
  Claim C1. For all Contexts \<open>a\<close>, \<open>b\<close> whose scopes have one readable Subscope per
  identity type, and every event identity \<open>x\<close>: \<^verbatim>\<open>a.match(x)\<close> and \<^verbatim>\<open>b.match(x)\<close>
  return booleans \<open>p\<close> and \<open>q\<close>; \<^verbatim>\<open>a.intersect(b)\<close>, \<^verbatim>\<open>a.plus(b)\<close> and
  \<^verbatim>\<open>a.inverse()\<close> return Contexts, which match \<open>x\<close> exactly when \<open>p \<and> q\<close>,
  \<open>p \<or> q\<close> and \<open>\<not> p\<close> hold.
\<close>

theorem Context_algebra_match:
  assumes a: "valid_scope (scope a)" and b: "valid_scope (scope b)"
  shows "\<exists>p q. Context_match a x = Inr p \<and> Context_match b x = Inr q \<and>
     (\<exists>c. Context_intersect a b = Inr c \<and> Context_match c x = Inr (p \<and> q)) \<and>
     (\<exists>c. Context_plus a b = Inr c \<and> Context_match c x = Inr (p \<or> q)) \<and>
     (\<exists>c. Context_inverse a = Inr c \<and> Context_match c x = Inr (\<not> p))"
proof -
  define k where "k = contextTypes (ctxType x)"
  define i where "i = ctxId x"
  have k: "k < 3" and ua: "usable (scope a ! k)" and ub: "usable (scope b ! k)"
    and ma: "Context_match a x = match_sub (scope a ! k) i"
    and mb: "Context_match b x = match_sub (scope b ! k) i"
    using valid_scope_match [OF a, of x] valid_scope_match [OF b, of x]
    by (simp_all add: k_def i_def)
  have la: "length (scope a) = 3" "list_all usable (scope a)"
    and lb: "length (scope b) = 3" "list_all usable (scope b)"
    using a b by (simp_all add: valid_scope_def)
  obtain p where p: "match_sub (scope a ! k) i = Inr p"
    using usable_match_sub [OF ua] by blast
  obtain q where q: "match_sub (scope b ! k) i = Inr q"
    using usable_match_sub [OF ub] by blast
  have match_of: "Context_match c x = match_sub (scope c ! k) i"
    if "length (scope c) = 3" for c
    using that k by (simp add: Context_match_def k_def i_def)
  have "\<exists>c. Context_intersect a b = Inr c \<and> Context_match c x = Inr (p \<and> q)"
  proof -
    obtain rs where rs: "map_scope2 intersect_sub (scope a) (scope b) = Inr rs"
      "length rs = 3" "list_all usable rs"
      "intersect_sub (scope a ! k) (scope b ! k) = Inr (rs ! k)"
      using map_scope2_nth [of intersect_sub "scope a" "scope b"] intersect_sub_match la lb k
      by (metis (no_types, lifting))
    obtain c where c: "createContext rs = Inr c" "scope c = rs"
      using createContext_usable [OF rs(3)] by blast
    have "match_sub (rs ! k) i = Inr (p \<and> q)"
      using intersect_sub_match [OF ua ub, of i] p q rs(4) by auto
    then show ?thesis
      using rs c match_of [of c] by (simp add: Context_intersect_def)
  qed
  moreover have "\<exists>c. Context_plus a b = Inr c \<and> Context_match c x = Inr (p \<or> q)"
  proof -
    obtain rs where rs: "map_scope2 plus_sub (scope a) (scope b) = Inr rs"
      "length rs = 3" "list_all usable rs"
      "plus_sub (scope a ! k) (scope b ! k) = Inr (rs ! k)"
      using map_scope2_nth [of plus_sub "scope a" "scope b"] plus_sub_match la lb k
      by (metis (no_types, lifting))
    obtain c where c: "createContext rs = Inr c" "scope c = rs"
      using createContext_usable [OF rs(3)] by blast
    have "match_sub (rs ! k) i = Inr (p \<or> q)"
      using plus_sub_match [OF ua ub, of i] p q rs(4) by auto
    then show ?thesis
      using rs c match_of [of c] by (simp add: Context_plus_def)
  qed
  moreover have "\<exists>c. Context_inverse a = Inr c \<and> Context_match c x = Inr (\<not> p)"
  proof -
    obtain rs where rs: "map_scope inverse_sub (scope a) = Inr rs"
      "length rs = 3" "list_all usable rs"
      "inverse_sub (scope a ! k) = Inr (rs ! k)"
      using map_scope_nth [of inverse_sub "scope a"] inverse_sub_match la k
      by (metis (no_types, lifting))
    obtain c where c: "createContext rs = Inr c" "scope c = rs"
      using createContext_usable [OF rs(3)] by blast
    have "match_sub (rs ! k) i = Inr (\<not> p)"
      using inverse_sub_match [OF ua, of i] p rs(4) by auto
    then show ?thesis
      using rs c match_of [of c] by (simp add: Context_inverse_def)
  qed
  ultimately show ?thesis
    using p q ma mb by simp
qed

theorem Context_algebra_match_witness:
  "valid_scope (scope ctx_users12) \<and> valid_scope (scope ctx_not_user2) \<and>
   Context_match ctx_users12 meta_user1 = Inr True \<and>
   Context_match ctx_not_user2 meta_user1 = Inr True \<and>
   (\<exists>c. Context_intersect ctx_users12 ctx_not_user2 = Inr c \<and>
        Context_match c meta_user1 = Inr True) \<and>
   (\<exists>c. Context_plus ctx_users12 ctx_not_user2 = Inr c \<and>
        Context_match c meta_user1 = Inr True) \<and>
   (\<exists>c. Context_inverse ctx_users12 = Inr c \<and> Context_match c meta_user1 = Inr False)"
proof -
  have va: "valid_scope (scope ctx_users12)"
    by (simp add: valid_scope_def ctx_users12_def)
  have vb: "valid_scope (scope ctx_not_user2)"
    by (simp add: valid_scope_def ctx_not_user2_def)
  have ma: "Context_match ctx_users12 meta_user1 = Inr True"
    by (simp add: Context_match_def ctx_users12_def meta_user1_def)
  have mb: "Context_match ctx_not_user2 meta_user1 = Inr True"
    by (simp add: Context_match_def ctx_not_user2_def meta_user1_def)
  show ?thesis
    using Context_algebra_match [OF va vb, of meta_user1] va vb ma mb by auto
qed

text \<open>Every binary operation, \<^verbatim>\<open>minus\<close> included, keeps exactly one list.\<close>

lemma binary_exactly_one:
  assumes "usable s" and "usable t"
  shows "\<exists>r. plus_sub s t = Inr r \<and> exactly_one r"
    and "\<exists>r. minus_sub s t = Inr r \<and> exactly_one r"
    and "\<exists>r. intersect_sub s t = Inr r \<and> exactly_one r"
proof -
  show "\<exists>r. plus_sub s t = Inr r \<and> exactly_one r"
    using assms by (cases "(s, t)" rule: plus_sub.cases) auto
  show "\<exists>r. minus_sub s t = Inr r \<and> exactly_one r"
    using assms by (cases "(s, t)" rule: minus_sub.cases) auto
  show "\<exists>r. intersect_sub s t = Inr r \<and> exactly_one r"
    using assms by (cases "(s, t)" rule: intersect_sub.cases) auto
qed

lemma inverse_include_exactly_one:
  "inverse_sub (Some include1, exclude1) = Inr (None, Some include1)"
  by simp

text \<open>
  Claim C4. The invariant, exactly one of \<^verbatim>\<open>include\<close> and \<^verbatim>\<open>exclude\<close> is non-null,
  holds of every Subscope of the Context "everyone but user 2"; \<^verbatim>\<open>inverse\<close> turns it
  into a Context each of whose Subscopes has both lists non-null: the exclude branch of
  \<^verbatim>\<open>inverse\<close> returns \<^verbatim>\<open>[exclude.slice(), []]\<close>.
\<close>

theorem inverse_exclude_both_lists:
  "list_all exactly_one (scope ctx_not_user2) \<and>
   Context_inverse ctx_not_user2 =
     Inr \<lparr>identifier = ''+user:2;+group:;+discuss:'',
          scope = [(Some [2], Some []), (Some [], Some []), (Some [], Some [])]\<rparr> \<and>
   exactly_one (Some [2], Some []) = False \<and>
   inverse_sub (None, Some [2]) = Inr (Some [2], Some [])"
  by (simp add: ctx_not_user2_def Context_inverse_def createContext_def stringify_def
      contextTypeName_def Number_toString_def digits.simps digit_char_def)

section \<open>Containment\<close>







text \<open>
  Under this reading the noop Context does not contain the Context of users 1 and 2, as it
  should not: it matches nobody.
\<close>

lemma Context_contain_noop:
  "Context_contain contain_rev ctx_noop ctx_users12 = Inr False"
  by (simp add: Context_contain_def contain_rev_def ctx_noop_def noopScope_def ctx_users12_def)

section \<open>The canonical text form and its parser\<close>

text \<open>
  Claim C3. The Context of users 1 and 2, which the algebra returns as the intersection of
  itself with the Context of everyone, does not survive the round trip: \<^verbatim>\<open>stringify\<close> writes
  a segment for every identity type, the two with an empty include list among them, and
  \<^verbatim>\<open>parse\<close> throws on the result whatever the unary plus does, since \<^verbatim>\<open>(.+)\<close> does not
  match an empty id list. The same holds of the noop Context, the difference of that Context
  and itself. The \<^verbatim>\<open>filter(a => a)\<close> of \<^verbatim>\<open>stringify\<close> drops no segment, since none is the
  empty string.
\<close>

theorem stringify_parse_empty_list:
  "Context_intersect ctx_users12 ctx_all = Inr ctx_users12 \<and>
   stringify (scope ctx_users12) = Inr ''+user:1,2;+group:;+discuss:'' \<and>
   parse to_number ''+user:1,2;+group:;+discuss:'' = Inl INVALID_IDENTIFIER \<and>
   Context_minus ctx_users12 ctx_users12 = Inr ctx_noop \<and>
   stringify (scope ctx_noop) = Inr ''+user:;+group:;+discuss:'' \<and>
   parse to_number ''+user:;+group:;+discuss:'' = Inl INVALID_IDENTIFIER"
  by (simp add: Context_intersect_def Context_minus_def createContext_def stringify_def
      contextTypeName_def ctx_users12_def ctx_all_def ctx_noop_def noopScope_def difference_def
      Number_toString_def digits.simps digit_char_def parse_def capture_def capture_type_def
      strip_prefix_def line_terminator_def)

section \<open>Authority and usage gating\<close>

lemma property_in_own: "key \<in> dom obj \<Longrightarrow> property_in key obj"
  by (simp add: property_in_def)

lemma property_in_plain:
  "key \<notin> set Object_prototype \<Longrightarrow> property_in key obj \<longleftrightarrow> key \<in> dom obj"
  by (simp add: property_in_def)




section \<open>Fields to fetch\<close>







section \<open>The execution pipeline\<close>

lemma Command_sendHint_events:
  "e \<in> set (Command_sendHint this msg param) \<Longrightarrow> e = Send msg param"
  by (simp add: Command_sendHint_def split: if_splits)

lemma Command_checkUser_events:
  "e \<in> set (fst (Command_checkUser updateUsage this m opts)) \<Longrightarrow> \<exists>n a b. e = UpdateUsage n a b"
  by (auto simp: Command_checkUser_def Let_def split: option.splits if_splits sum.splits)

lemma execute_handled:
  "serialize argv \<Longrightarrow>
   Command_execute serialize updateUsage this argv = ([Serialize ''before-command''], None)"
  by (simp add: Command_execute_def)

lemma execute_arg_count:
  "\<not> serialize argv \<Longrightarrow> check_arg_count this (args_of argv) = Inr (Some hint) \<Longrightarrow>
   Command_execute serialize updateUsage this argv =
     (Serialize ''before-command'' # Command_sendHint this hint [], None)"
  by (simp add: Command_execute_def)

lemma execute_unknown:
  "\<not> serialize argv \<Longrightarrow> check_arg_count this (args_of argv) = Inr None \<Longrightarrow>
   checkUnknown (config this) \<Longrightarrow> unknown_of argv \<noteq> [] \<Longrightarrow>
   Command_execute serialize updateUsage this argv =
     (Serialize ''before-command'' #
        Command_sendHint this UNKNOWN_OPTIONS [join '', '' (unknown_of argv)], None)"
  by (simp add: Command_execute_def)

lemma execute_required:
  "\<not> serialize argv \<Longrightarrow> check_arg_count this (args_of argv) = Inr None \<Longrightarrow>
   \<not> (checkUnknown (config this) \<and> unknown_of argv \<noteq> []) \<Longrightarrow>
   checkRequired (config this) \<Longrightarrow>
   find (\<lambda>option. CommandOption.required option \<and> \<not> property_in (longest option) (options_of argv))
     (options' this) = Some absent \<Longrightarrow>
   Command_execute serialize updateUsage this argv =
     (Serialize ''before-command'' #
        Command_sendHint this REQUIRED_OPTIONS [rawName absent], None)"
  by (cases "checkUnknown (config this)") (simp_all add: Command_execute_def)

lemma execute_user:
  "\<not> serialize argv \<Longrightarrow> check_arg_count this (args_of argv) = Inr None \<Longrightarrow>
   \<not> (checkUnknown (config this) \<and> unknown_of argv \<noteq> []) \<Longrightarrow>
   (if checkRequired (config this)
    then find (\<lambda>option. CommandOption.required option \<and>
                 \<not> property_in (longest option) (options_of argv)) (options' this)
    else None) = None \<Longrightarrow>
   Command_checkUser updateUsage this (meta argv) (options_of argv) = (calls, Some msg) \<Longrightarrow>
   Command_execute serialize updateUsage this argv =
     (Serialize ''before-command'' # calls @ Command_sendHint this msg [], None)"
  by (cases "checkUnknown (config this)") (simp_all add: Command_execute_def)

lemma execute_action_only_after_checks:
  assumes "Action as \<in> set (fst (Command_execute serialize updateUsage this argv))"
  shows "\<not> serialize argv \<and> check_arg_count this (args_of argv) = Inr None \<and>
    \<not> (checkUnknown (config this) \<and> unknown_of argv \<noteq> []) \<and>
    (if checkRequired (config this)
     then find (\<lambda>option. CommandOption.required option \<and>
                  \<not> property_in (longest option) (options_of argv)) (options' this)
     else None) = None \<and>
    snd (Command_checkUser updateUsage this (meta argv) (options_of argv)) = None"
proof -
  have hint: "Action as \<notin> set (Command_sendHint this msg param)" for msg param
    using Command_sendHint_events by blast
  have calls: "Action as \<notin> set (fst (Command_checkUser updateUsage this (meta argv) (options_of argv)))"
    using Command_checkUser_events by blast
  obtain cs r where cu: "Command_checkUser updateUsage this (meta argv) (options_of argv) = (cs, r)"
    by (cases "Command_checkUser updateUsage this (meta argv) (options_of argv)")
  show ?thesis
  proof (cases "serialize argv")
    case True
    then show ?thesis using assms by (simp add: execute_handled)
  next
    case False
    show ?thesis
    proof (cases "check_arg_count this (args_of argv)")
      case (Inl e)
      then show ?thesis using assms False by (simp add: Command_execute_def)
    next
      case (Inr h)
      show ?thesis
      proof (cases h)
        case (Some m)
        then show ?thesis using assms False Inr hint by (simp add: execute_arg_count)
      next
        case None
        note ac = Inr [unfolded None]
        show ?thesis
        proof (cases "checkUnknown (config this) \<and> unknown_of argv \<noteq> []")
          case True
          then show ?thesis using assms False ac hint by (simp add: execute_unknown)
        next
          case unk: False
          show ?thesis
          proof (cases "if checkRequired (config this)
              then find (\<lambda>option. CommandOption.required option \<and>
                  \<not> property_in (longest option) (options_of argv)) (options' this)
              else None")
            case (Some absent)
            then have "checkRequired (config this)"
              and "find (\<lambda>option. CommandOption.required option \<and>
                  \<not> property_in (longest option) (options_of argv)) (options' this) = Some absent"
              by (simp_all split: if_splits)
            then show ?thesis
              using assms hint
                execute_required [where serialize = serialize and argv = argv and this = this
                  and absent = absent and updateUsage = updateUsage, OF False ac unk]
              by simp
          next
            case req: None
            show ?thesis
            proof (cases r)
              case (Some msg)
              then show ?thesis
                using assms hint calls cu
                  execute_user [where serialize = serialize and argv = argv and this = this
                    and updateUsage = updateUsage and calls = cs and msg = msg,
                    OF False ac unk req cu [unfolded Some]]
                by simp
            next
              case None
              then show ?thesis using False ac unk req cu by simp
            qed
          qed
        qed
      qed
    qed
  qed
qed

text \<open>
  Claim C5. \<^verbatim>\<open>execute\<close> fires the pre-execution hook first; if the hook signals handled,
  nothing else happens. Otherwise the checks run in the order argument count, unknown
  options, required options (a required option fails the check when
  \<^verbatim>\<open>option.longest in options\<close> does not hold), authority and usage; the first one that fails ends the
  execution after its hint, and the hint is sent when \<^verbatim>\<open>showWarning\<close> is set and is silent
  otherwise. The action is invoked only in an execution in which the hook did not signal
  handled and every check passed.
\<close>

theorem Command_execute_short_circuit:
  "(serialize argv \<longrightarrow>
      Command_execute serialize updateUsage this argv = ([Serialize ''before-command''], None)) \<and>
   (\<not> serialize argv \<and> check_arg_count this (args_of argv) = Inr (Some hint) \<longrightarrow>
      Command_execute serialize updateUsage this argv =
        (Serialize ''before-command'' # Command_sendHint this hint [], None)) \<and>
   (\<not> serialize argv \<and> check_arg_count this (args_of argv) = Inr None \<and>
    checkUnknown (config this) \<and> unknown_of argv \<noteq> [] \<longrightarrow>
      Command_execute serialize updateUsage this argv =
        (Serialize ''before-command'' #
           Command_sendHint this UNKNOWN_OPTIONS [join '', '' (unknown_of argv)], None)) \<and>
   (\<not> serialize argv \<and> check_arg_count this (args_of argv) = Inr None \<and>
    \<not> (checkUnknown (config this) \<and> unknown_of argv \<noteq> []) \<and> checkRequired (config this) \<and>
    find (\<lambda>option. CommandOption.required option \<and> \<not> property_in (longest option) (options_of argv))
      (options' this) = Some absent \<longrightarrow>
      Command_execute serialize updateUsage this argv =
        (Serialize ''before-command'' #
           Command_sendHint this REQUIRED_OPTIONS [rawName absent], None)) \<and>
   (\<not> serialize argv \<and> check_arg_count this (args_of argv) = Inr None \<and>
    \<not> (checkUnknown (config this) \<and> unknown_of argv \<noteq> []) \<and>
    (if checkRequired (config this)
     then find (\<lambda>option. CommandOption.required option \<and>
                  \<not> property_in (longest option) (options_of argv)) (options' this)
     else None) = None \<and>
    Command_checkUser updateUsage this (meta argv) (options_of argv) = (calls, Some msg) \<longrightarrow>
      Command_execute serialize updateUsage this argv =
        (Serialize ''before-command'' # calls @ Command_sendHint this msg [], None)) \<and>
   Command_sendHint this msg param = (if showWarning (config this) then [Send msg param] else []) \<and>
   (Action as \<in> set (fst (Command_execute serialize updateUsage this argv)) \<longrightarrow>
      \<not> serialize argv \<and> check_arg_count this (args_of argv) = Inr None \<and>
      \<not> (checkUnknown (config this) \<and> unknown_of argv \<noteq> []) \<and>
      (if checkRequired (config this)
       then find (\<lambda>option. CommandOption.required option \<and>
                    \<not> property_in (longest option) (options_of argv)) (options' this)
       else None) = None \<and>
      snd (Command_checkUser updateUsage this (meta argv) (options_of argv)) = None)"
  apply (intro conjI impI)
  subgoal by (rule execute_handled)
  subgoal by (elim conjE) (rule execute_arg_count)
  subgoal by (elim conjE) (rule execute_unknown)
  subgoal by (elim conjE) (rule execute_required)
  subgoal by (elim conjE) (rule execute_user)
  subgoal by (simp add: Command_sendHint_def)
  subgoal by (rule execute_action_only_after_checks [THEN conjunct1])
  subgoal by (rule execute_action_only_after_checks [THEN conjunct2, THEN conjunct1])
  subgoal
    by (rule execute_action_only_after_checks [THEN conjunct2, THEN conjunct2, THEN conjunct1])
  subgoal
    by (rule execute_action_only_after_checks
        [THEN conjunct2, THEN conjunct2, THEN conjunct2, THEN conjunct1])
  subgoal
    by (rule execute_action_only_after_checks
        [THEN conjunct2, THEN conjunct2, THEN conjunct2, THEN conjunct2])
  done

text \<open>
  At the example command: a handled hook; a missing argument; two unknown options; the
  required option missing; the option present but above the user's authority; and a missing
  argument with \<^verbatim>\<open>showWarning\<close> switched off.
\<close>

theorem Command_execute_short_circuit_witness:
  "Command_execute (\<lambda>argv. True) (\<lambda>n u a b. None) example_command example_argv =
     ([Serialize ''before-command''], None) \<and>
   Command_execute (\<lambda>argv. False) (\<lambda>n u a b. None) example_command
     (example_argv\<lparr>args := Some []\<rparr>) =
     ([Serialize ''before-command'', Send INSUFFICIENT_ARGUMENTS []], None) \<and>
   Command_execute (\<lambda>argv. False) (\<lambda>n u a b. None) example_command
     (example_argv\<lparr>unknown := Some [''x'', ''y'']\<rparr>) =
     ([Serialize ''before-command'', Send UNKNOWN_OPTIONS [''x, y'']], None) \<and>
   Command_execute (\<lambda>argv. False) (\<lambda>n u a b. None) example_command
     (example_argv\<lparr>options := None\<rparr>) =
     ([Serialize ''before-command'', Send REQUIRED_OPTIONS [''-f, --force'']], None) \<and>
   Command_execute (\<lambda>argv. False) (\<lambda>n u a b. None) example_command example_argv =
     ([Serialize ''before-command'', Send LOW_AUTHORITY []], None) \<and>
   Command_execute (\<lambda>argv. False) (\<lambda>n u a b. None)
     (example_command\<lparr>config := (config example_command)\<lparr>showWarning := False\<rparr>\<rparr>)
     (example_argv\<lparr>args := Some []\<rparr>) =
     ([Serialize ''before-command''], None)"
proof -
  note defs = example_command_def example_argv_def example_option_def defaultConfig_def
    check_arg_count_def args_of_def unknown_of_def options_of_def Command_sendHint_def
    Command_checkUser_def first_camel_def property_in_def Object_prototype_def
  have 1: "Command_execute (\<lambda>argv. True) (\<lambda>n u a b. None) example_command example_argv =
     ([Serialize ''before-command''], None)"
    using Command_execute_short_circuit [of "\<lambda>argv. True" example_argv "\<lambda>n u a b. None"
        example_command]
    by simp
  have 2: "Command_execute (\<lambda>argv. False) (\<lambda>n u a b. None) example_command
     (example_argv\<lparr>args := Some []\<rparr>) =
     ([Serialize ''before-command'', Send INSUFFICIENT_ARGUMENTS []], None)"
    using Command_execute_short_circuit [of "\<lambda>argv. False" "example_argv\<lparr>args := Some []\<rparr>"
        "\<lambda>n u a b. None" example_command INSUFFICIENT_ARGUMENTS]
    by (simp add: defs)
  have 3: "Command_execute (\<lambda>argv. False) (\<lambda>n u a b. None) example_command
     (example_argv\<lparr>unknown := Some [''x'', ''y'']\<rparr>) =
     ([Serialize ''before-command'', Send UNKNOWN_OPTIONS [''x, y'']], None)"
    using Command_execute_short_circuit [of "\<lambda>argv. False"
        "example_argv\<lparr>unknown := Some [''x'', ''y'']\<rparr>" "\<lambda>n u a b. None" example_command]
    by (simp add: defs)
  have 4: "Command_execute (\<lambda>argv. False) (\<lambda>n u a b. None) example_command
     (example_argv\<lparr>options := None\<rparr>) =
     ([Serialize ''before-command'', Send REQUIRED_OPTIONS [''-f, --force'']], None)"
    using Command_execute_short_circuit [of "\<lambda>argv. False" "example_argv\<lparr>options := None\<rparr>"
        "\<lambda>n u a b. None" example_command _ example_option]
    by (simp add: defs)
  have 5: "Command_execute (\<lambda>argv. False) (\<lambda>n u a b. None) example_command example_argv =
     ([Serialize ''before-command'', Send LOW_AUTHORITY []], None)"
    using Command_execute_short_circuit [of "\<lambda>argv. False" example_argv "\<lambda>n u a b. None"
        example_command _ _ "[]" LOW_AUTHORITY]
    by (simp add: defs)
  have 6: "Command_execute (\<lambda>argv. False) (\<lambda>n u a b. None)
     (example_command\<lparr>config := (config example_command)\<lparr>showWarning := False\<rparr>\<rparr>)
     (example_argv\<lparr>args := Some []\<rparr>) =
     ([Serialize ''before-command''], None)"
    using Command_execute_short_circuit [of "\<lambda>argv. False" "example_argv\<lparr>args := Some []\<rparr>"
        "\<lambda>n u a b. None"
        "example_command\<lparr>config := (config example_command)\<lparr>showWarning := False\<rparr>\<rparr>"
        INSUFFICIENT_ARGUMENTS]
    by (simp add: defs)
  show ?thesis
    using 1 2 3 4 5 6 by simp
qed

text \<open>
  The required-options check is \<^verbatim>\<open>option.longest in options\<close>: a required option
  \<^verbatim>\<open>toString\<close> passes it when no option is given, and the action runs.
\<close>

lemma execute_required_inherited_name:
  "Command_execute (\<lambda>argv. False) (\<lambda>n u a b. None)
     (example_command\<lparr>options' := [example_option\<lparr>longest := ''toString'',
        camels := [''toString''], CommandOption.authority := 0\<rparr>]\<rparr>)
     (example_argv\<lparr>options := None\<rparr>) =
     ([Serialize ''before-command'', Parallelize ''command'', Action [''hi''],
       Parallelize ''after-command''], None)"
  by (simp add: Command_execute_def example_command_def example_argv_def example_option_def
      defaultConfig_def check_arg_count_def args_of_def unknown_of_def options_of_def
      Command_checkUser_def first_camel_def property_in_def Object_prototype_def)

subsection \<open>The argument count\<close>

lemma insufficient_arguments:
  "checkArgCount (config this) \<Longrightarrow> length as < length (argsDef' this) \<Longrightarrow>
   CommandArgument.required (argsDef' this ! length as) \<Longrightarrow>
   check_arg_count this as = Inr (Some INSUFFICIENT_ARGUMENTS)"
  by (simp add: check_arg_count_def)

lemma redundant_arguments:
  "checkArgCount (config this) \<Longrightarrow> length as > length (argsDef' this) \<Longrightarrow>
   argsDef' this \<noteq> [] \<Longrightarrow> \<not> noSegment (last (argsDef' this)) \<Longrightarrow>
   \<not> variadic (last (argsDef' this)) \<Longrightarrow>
   check_arg_count this as = Inr (Some REDUNANT_ARGUMENTS)"
  by (simp add: check_arg_count_def)

text \<open>
  Claim C8. With \<^verbatim>\<open>checkArgCount\<close> on, a command that declares no argument and is given
  one does not report redundant arguments: \<^verbatim>\<open>finalArg\<close> is \<^verbatim>\<open>undefined\<close>, reading its
  \<^verbatim>\<open>noSegment\<close> throws, and \<^verbatim>\<open>execute\<close> ends with a \<open>TypeError\<close> after the
  pre-execution hook, no hint sent.
\<close>

theorem execute_no_arguments_declared:
  "argsDef' (example_command\<lparr>argsDef' := []\<rparr>) = [] \<and>
   checkArgCount (config (example_command\<lparr>argsDef' := []\<rparr>)) \<and>
   args_of example_argv = [''hi''] \<and>
   check_arg_count (example_command\<lparr>argsDef' := []\<rparr>) [''hi''] = Inl TypeError \<and>
   Command_execute (\<lambda>argv. False) (\<lambda>n u a b. None) (example_command\<lparr>argsDef' := []\<rparr>)
     example_argv = ([Serialize ''before-command''], Some TypeError)"
  by (simp add: Command_execute_def check_arg_count_def example_command_def example_argv_def
      defaultConfig_def args_of_def)

section \<open>The teach plugin\<close>

text \<open>
  Claim C10. When the invocation names no target and is in appellative form, the handler
  leaves \<^verbatim>\<open>data.probS\<close> equal to \<^verbatim>\<open>options.probabilityAppellative\<close> if that is defined
  and to 1 otherwise, whatever \<^verbatim>\<open>options.probabilityStrict\<close> is, and leaves
  \<^verbatim>\<open>data.probA\<close> as it was.
\<close>

theorem dialogue_modify_appellative:
  assumes "target = None" and "appellative"
  shows "probS (dialogue_modify keyword_bit redirect_bit opts target appellative data) =
      Some (case probabilityAppellative opts of None \<Rightarrow> 1 | Some p \<Rightarrow> p) \<and>
    probA (dialogue_modify keyword_bit redirect_bit opts target appellative data) = probA data \<and>
    dialogue_modify keyword_bit redirect_bit (opts\<lparr>probabilityStrict := strict\<rparr>) target
      appellative data =
    dialogue_modify keyword_bit redirect_bit opts target appellative data"
  using assms
  by (simp add: dialogue_modify_def modify_flags_def modify_probability_def modify_question_def
      modify_answer_def nullish_def Let_def split: option.splits)

theorem dialogue_modify_appellative_witness:
  "probS (dialogue_modify 4 16
     \<lparr>TeachOptions.answer = Some ''b'', TeachOptions.question = Some ''a'',
      TeachOptions.original = Some ''a'', probabilityStrict = Some (1 / 2),
      probabilityAppellative = None, keyword = None, redirect = None\<rparr>
     (None :: nat option) True
     \<lparr>Dialogue.answer = None, Dialogue.question = None, Dialogue.original = None,
      probS = None, probA = None, flag = 0\<rparr>) = Some 1 \<and>
   probA (dialogue_modify 4 16
     \<lparr>TeachOptions.answer = Some ''b'', TeachOptions.question = Some ''a'',
      TeachOptions.original = Some ''a'', probabilityStrict = Some (1 / 2),
      probabilityAppellative = None, keyword = None, redirect = None\<rparr>
     (None :: nat option) True
     \<lparr>Dialogue.answer = None, Dialogue.question = None, Dialogue.original = None,
      probS = None, probA = None, flag = 0\<rparr>) = None"
  using dialogue_modify_appellative [of "None :: nat option" True 4 16
      "\<lparr>TeachOptions.answer = Some ''b'', TeachOptions.question = Some ''a'',
        TeachOptions.original = Some ''a'', probabilityStrict = Some (1 / 2),
        probabilityAppellative = None, keyword = None, redirect = None\<rparr>"
      "\<lparr>Dialogue.answer = None, Dialogue.question = None, Dialogue.original = None,
        probS = None, probA = None, flag = 0\<rparr>"]
  by simp

section \<open>Registering commands\<close>

lemma noopIdentifier_text: "noopIdentifier = ''+user:;+group:;+discuss:''"
  by (simp add: noopIdentifier_def stringify_def noopScope_def contextTypeName_def)

lemma new_Command_error:
  "new_Command parseArguments app n d c = (Inl e, app1) \<Longrightarrow> app1 = app"
  by (auto simp: new_Command_def split: if_splits option.splits)

lemma command_segment_error:
  assumes "command_segment cont parseArguments this d app parent1 segment = (Inl e, app1)"
  shows "app1 = app"
proof (cases "segment_name app parent1 segment")
  case (Inl e1)
  then show ?thesis using assms by (simp add: command_segment_def)
next
  case (Inr n)
  show ?thesis
  proof (cases "commandMap' app n")
    case (Some c)
    then show ?thesis
      using assms Inr
      by (auto simp: command_segment_def split: option.splits if_splits sum.splits)
  next
    case None
    show ?thesis
    proof (cases "case parent1 of None \<Rightarrow> Inr this
        | Some p \<Rightarrow> Context_intersect this (context (commands' app ! p))")
      case (Inl e1)
      then show ?thesis using assms Inr None by (simp add: command_segment_def)
    next
      case ctx: (Inr c1)
      show ?thesis
      proof (cases "identifier c1 = noopIdentifier")
        case True
        then show ?thesis using assms Inr None ctx by (simp add: command_segment_def)
      next
        case False
        obtain r app2 where n: "new_Command parseArguments app n d c1 = (r, app2)"
          by (cases "new_Command parseArguments app n d c1")
        show ?thesis
        proof (cases r)
          case (Inl e1)
          then show ?thesis
            using assms Inr None ctx False n new_Command_error [of parseArguments app n d c1 e1 app2]
            by (simp add: command_segment_def)
        next
          case r: (Inr c)
          then show ?thesis
            using assms Inr None ctx False n by (simp add: command_segment_def)
        qed
      qed
    qed
  qed
qed

lemma command_segments_error:
  "command_segments cont parseArguments this d app parent1 segments = (Inl e, app1) \<Longrightarrow>
   \<exists>pre segment post p1.
     segments = pre @ segment # post \<and>
     command_segments cont parseArguments this d app parent1 pre = (Inr p1, app1) \<and>
     command_segment cont parseArguments this d app1 p1 segment = (Inl e, app1)"
proof (induction segments arbitrary: app parent1)
  case Nil
  then show ?case by simp
next
  case (Cons s segments)
  obtain r app2 where step: "command_segment cont parseArguments this d app parent1 s = (r, app2)"
    by (cases "command_segment cont parseArguments this d app parent1 s")
  show ?case
  proof (cases r)
    case (Inl e1)
    then have "e1 = e" "app2 = app1"
      using Cons.prems step by simp_all
    moreover have "app2 = app"
      using step Inl command_segment_error by blast
    ultimately have "command_segment cont parseArguments this d app1 parent1 s = (Inl e, app1)"
      "command_segments cont parseArguments this d app parent1 [] = (Inr parent1, app1)"
      using step Inl by simp_all
    then show ?thesis
      by (intro exI [of _ "[]"] exI [of _ s] exI [of _ segments] exI [of _ parent1]) simp
  next
    case (Inr c)
    then have "command_segments cont parseArguments this d app2 (Some c) segments = (Inl e, app1)"
      using Cons.prems step by simp
    then obtain pre segment post p1 where rest: "segments = pre @ segment # post"
      "command_segments cont parseArguments this d app2 (Some c) pre = (Inr p1, app1)"
      "command_segment cont parseArguments this d app1 p1 segment = (Inl e, app1)"
      using Cons.IH by blast
    have "command_segments cont parseArguments this d app parent1 (s # pre) = (Inr p1, app1)"
      using step Inr rest(2) by simp
    then show ?thesis
      using rest(1,3)
      by (intro exI [of _ "s # pre"] exI [of _ segment] exI [of _ post] exI [of _ p1]) simp
  qed
qed

lemma link_child_new:
  "c = length (commands' app) \<Longrightarrow> commands' app1 = commands' app @ [cmd] \<Longrightarrow>
   context (commands' (link_child app1 c p) ! c) = context cmd \<and>
   parent (commands' (link_child app1 c p) ! c) = Some p"
  by (cases "p = c") (simp_all add: link_child_def Let_def nth_append nth_list_update)

text \<open>
  Claim C7, as stated, fails for a path of more than one segment: registering \<^verbatim>\<open>x/y\<close> from
  the Context of users 1 and 2, where \<^verbatim>\<open>y\<close> exists for everyone and has no parent, throws
  the context-containment error at \<^verbatim>\<open>y\<close>, after \<^verbatim>\<open>x\<close> has been created and
  registered.
\<close>

theorem Context_command_mutation_counterexample:
  "length (commands' example_app) = 1 \<and> commandMap' example_app ''x'' = None \<and>
   fst (Context_command contain (\<lambda>d. []) (\<lambda>c. c) ctx_users12 example_app ''x/y'') =
     Inl INVALID_CONTEXT \<and>
   length (commands' (snd (Context_command contain (\<lambda>d. []) (\<lambda>c. c) ctx_users12
      example_app ''x/y''))) = 2 \<and>
   commandMap' (snd (Context_command contain (\<lambda>d. []) (\<lambda>c. c) ctx_users12
      example_app ''x/y'')) ''x'' = Some 1"
  by (simp add: Context_command_def command_segment_def segment_name_def new_Command_def
      Context_contain_def toLowerCase_def lower_char_def separator_def example_app_def
      example_command_def ctx_users12_def ctx_all_def noopIdentifier_text)

text \<open>
  Claim C7, amended. A segment of the path that throws leaves the command tree as it found
  it, and a registration that throws leaves the tree as the segments before the failing one
  made it: the nodes they created or adopted stay. An existing node without a parent, met
  under a parent other than itself, is adopted iff the parent's Context contains its own, and
  is refused with the context-containment error otherwise. A segment that names no existing
  node, met under a parent, fails with that error if the identifier of the intersection of
  the calling Context and the parent's Context is the noop identifier; otherwise it creates a
  node (of a non-empty, lower-case name) whose Context is that intersection and whose parent
  is the parent.
\<close>

theorem command_segment_registration:
  "(command_segment cont parseArguments this d app parent1 segment = (Inl e, app1) \<longrightarrow>
      app1 = app) \<and>
   (command_segments cont parseArguments this d app parent1 segments = (Inl e, app1) \<longrightarrow>
      (\<exists>pre failing post p1.
         segments = pre @ failing # post \<and>
         command_segments cont parseArguments this d app parent1 pre = (Inr p1, app1) \<and>
         command_segment cont parseArguments this d app1 p1 failing = (Inl e, app1))) \<and>
   (segment_name app (Some p) segment = Inr n \<and> commandMap' app n = Some c \<and> c \<noteq> p \<and>
    parent (commands' app ! c) = None \<longrightarrow>
      command_segment cont parseArguments this d app (Some p) segment =
        (case Context_contain cont (context (commands' app ! p)) (context (commands' app ! c)) of
           Inl e1 \<Rightarrow> (Inl e1, app)
         | Inr inside \<Rightarrow>
             if inside then (Inr c, link_child app c p) else (Inl INVALID_CONTEXT, app))) \<and>
   (segment_name app (Some p) segment = Inr n \<and> commandMap' app n = None \<and>
    Context_intersect this (context (commands' app ! p)) = Inr context1 \<and>
    identifier context1 = noopIdentifier \<longrightarrow>
      command_segment cont parseArguments this d app (Some p) segment =
        (Inl INVALID_CONTEXT, app)) \<and>
   (segment_name app (Some p) segment = Inr n \<and> commandMap' app n = None \<and>
    Context_intersect this (context (commands' app ! p)) = Inr context1 \<and>
    identifier context1 \<noteq> noopIdentifier \<and> n \<noteq> [] \<and> toLowerCase n = n \<longrightarrow>
      (\<exists>app2. command_segment cont parseArguments this d app (Some p) segment =
           (Inr (length (commands' app)), app2) \<and>
         context (commands' app2 ! length (commands' app)) = context1 \<and>
         parent (commands' app2 ! length (commands' app)) = Some p \<and>
         commandMap' app2 n = Some (length (commands' app))))"
proof (intro conjI impI)
  assume "command_segment cont parseArguments this d app parent1 segment = (Inl e, app1)"
  then show "app1 = app"
    by (rule command_segment_error)
next
  assume "command_segments cont parseArguments this d app parent1 segments = (Inl e, app1)"
  then show "\<exists>pre failing post p1.
      segments = pre @ failing # post \<and>
      command_segments cont parseArguments this d app parent1 pre = (Inr p1, app1) \<and>
      command_segment cont parseArguments this d app1 p1 failing = (Inl e, app1)"
    by (rule command_segments_error)
next
  assume "segment_name app (Some p) segment = Inr n \<and> commandMap' app n = Some c \<and> c \<noteq> p \<and>
    parent (commands' app ! c) = None"
  then show "command_segment cont parseArguments this d app (Some p) segment =
      (case Context_contain cont (context (commands' app ! p)) (context (commands' app ! c)) of
         Inl e1 \<Rightarrow> (Inl e1, app)
       | Inr inside \<Rightarrow>
           if inside then (Inr c, link_child app c p) else (Inl INVALID_CONTEXT, app))"
    by (simp add: command_segment_def)
next
  assume "segment_name app (Some p) segment = Inr n \<and> commandMap' app n = None \<and>
    Context_intersect this (context (commands' app ! p)) = Inr context1 \<and>
    identifier context1 = noopIdentifier"
  then show "command_segment cont parseArguments this d app (Some p) segment =
      (Inl INVALID_CONTEXT, app)"
    by (simp add: command_segment_def)
next
  assume a: "segment_name app (Some p) segment = Inr n \<and> commandMap' app n = None \<and>
    Context_intersect this (context (commands' app ! p)) = Inr context1 \<and>
    identifier context1 \<noteq> noopIdentifier \<and> n \<noteq> [] \<and> toLowerCase n = n"
  define k where "k = length (commands' app)"
  define cmd :: Command where "cmd =
     \<lparr>name = n, declaration = d, context = context1, config = defaultConfig, children = [],
      parent = None, aliases' = [n], options' = [], userFields' = {},
      argsDef' = parseArguments d, action' = None\<rparr>"
  define app2 where "app2 = app\<lparr>commandMap' := (commandMap' app)(n \<mapsto> k),
      commands' := commands' app @ [cmd]\<rparr>"
  have new: "new_Command parseArguments app n d context1 = (Inr k, app2)"
    using a by (simp add: new_Command_def app2_def cmd_def k_def)
  have step: "command_segment cont parseArguments this d app (Some p) segment =
      (Inr k, link_child app2 k p)"
    using a new by (simp add: command_segment_def)
  have "commands' app2 = commands' app @ [cmd]"
    by (simp add: app2_def)
  then have "context (commands' (link_child app2 k p) ! k) = context cmd \<and>
      parent (commands' (link_child app2 k p) ! k) = Some p"
    using link_child_new [of k app app2 cmd p] by (simp add: k_def)
  moreover have "commandMap' (link_child app2 k p) n = Some k"
    by (simp add: link_child_def Let_def app2_def)
  ultimately show "\<exists>app2. command_segment cont parseArguments this d app (Some p) segment =
         (Inr (length (commands' app)), app2) \<and>
       context (commands' app2 ! length (commands' app)) = context1 \<and>
       parent (commands' app2 ! length (commands' app)) = Some p \<and>
       commandMap' app2 n = Some (length (commands' app))"
    using step by (simp add: k_def cmd_def)
qed

text \<open>
  In the example application, from the Context of users 1 and 2. The path \<^verbatim>\<open>x/y\<close> fails at
  \<^verbatim>\<open>/y\<close>, which is not adopted, and leaves the tree as \<^verbatim>\<open>x\<close> made it; \<^verbatim>\<open>.z\<close> under
  \<^verbatim>\<open>y\<close> creates \<^verbatim>\<open>y.z\<close> with the intersection as its Context; from the noop Context
  the same segment is refused.
\<close>

theorem command_segment_registration_witness:
  "command_segment contain (\<lambda>d. []) ctx_users12 []
     (snd (command_segment contain (\<lambda>d. []) ctx_users12 [] example_app None ''x''))
     (Some 1) ''/y'' =
     (Inl INVALID_CONTEXT,
      snd (command_segment contain (\<lambda>d. []) ctx_users12 [] example_app None ''x'')) \<and>
   (\<exists>pre failing post p1.
      [''x'', ''/y''] = pre @ failing # post \<and>
      command_segments contain (\<lambda>d. []) ctx_users12 [] example_app None pre =
        (Inr p1, snd (command_segment contain (\<lambda>d. []) ctx_users12 [] example_app None ''x'')) \<and>
      command_segment contain (\<lambda>d. []) ctx_users12 []
        (snd (command_segment contain (\<lambda>d. []) ctx_users12 [] example_app None ''x''))
        p1 failing =
        (Inl INVALID_CONTEXT,
         snd (command_segment contain (\<lambda>d. []) ctx_users12 [] example_app None ''x''))) \<and>
   command_segment contain (\<lambda>d. []) ctx_noop [] example_app (Some 0) ''.z'' =
     (Inl INVALID_CONTEXT, example_app) \<and>
   (\<exists>app2. command_segment contain (\<lambda>d. []) ctx_users12 [] example_app (Some 0) ''.z'' =
        (Inr 1, app2) \<and>
      context (commands' app2 ! 1) = ctx_users12 \<and>
      parent (commands' app2 ! 1) = Some 0 \<and>
      commandMap' app2 ''y.z'' = Some 1)"
proof -
  define app_x where
    "app_x = snd (command_segment contain (\<lambda>d. []) ctx_users12 [] example_app None ''x'')"
  note defs = command_segment_def segment_name_def new_Command_def toLowerCase_def
    lower_char_def example_app_def example_command_def noopIdentifier_text
  have x: "command_segment contain (\<lambda>d. []) ctx_users12 [] example_app None ''x'' = (Inr 1, app_x)"
    unfolding app_x_def by (simp add: defs ctx_users12_def)
  have app_x: "commandMap' app_x ''y'' = Some 0" "parent (commands' app_x ! 0) = None"
    "context (commands' app_x ! 0) = ctx_all"
    "context (commands' app_x ! Suc 0) = ctx_users12"
    unfolding app_x_def by (simp_all add: defs ctx_users12_def)
  have not_inside: "Context_contain contain ctx_users12 ctx_all = Inr False"
    by (simp add: Context_contain_def ctx_users12_def ctx_all_def)
  have y: "command_segment contain (\<lambda>d. []) ctx_users12 [] app_x (Some 1) ''/y'' =
      (Inl INVALID_CONTEXT, app_x)"
    using command_segment_registration [where cont = contain and parseArguments = "\<lambda>d. []"
        and this = ctx_users12 and d = "[]" and app = app_x and p = 1 and segment = "''/y''"
        and n = "''y''" and c = 0]
    by (simp add: segment_name_def app_x not_inside)
  have "command_segments contain (\<lambda>d. []) ctx_users12 [] example_app None [''x'', ''/y''] =
      (Inl INVALID_CONTEXT, app_x)"
    using x y by simp
  then have path: "\<exists>pre failing post p1.
      [''x'', ''/y''] = pre @ failing # post \<and>
      command_segments contain (\<lambda>d. []) ctx_users12 [] example_app None pre = (Inr p1, app_x) \<and>
      command_segment contain (\<lambda>d. []) ctx_users12 [] app_x p1 failing =
        (Inl INVALID_CONTEXT, app_x)"
    using command_segment_registration [where cont = contain and parseArguments = "\<lambda>d. []"
        and this = ctx_users12 and d = "[]" and app = example_app and ?parent1.0 = None
        and e = INVALID_CONTEXT and ?app1.0 = app_x and segments = "[''x'', ''/y'']"]
    by blast
  have noop: "Context_intersect ctx_noop ctx_all = Inr ctx_noop"
    by (simp add: Context_intersect_def createContext_def stringify_def contextTypeName_def
        ctx_noop_def ctx_all_def noopScope_def difference_def)
  have z_noop: "command_segment contain (\<lambda>d. []) ctx_noop [] example_app (Some 0) ''.z'' =
      (Inl INVALID_CONTEXT, example_app)"
    using command_segment_registration [where cont = contain and parseArguments = "\<lambda>d. []"
        and this = ctx_noop and d = "[]" and app = example_app and p = 0
        and segment = "''.z''" and n = "''y.z''" and ?context1.0 = ctx_noop] noop
    by (simp add: segment_name_def example_app_def example_command_def noopIdentifier_text
        ctx_noop_def)
  have inter: "Context_intersect ctx_users12 ctx_all = Inr ctx_users12"
    by (simp add: Context_intersect_def createContext_def stringify_def contextTypeName_def
        ctx_users12_def ctx_all_def difference_def Number_toString_def digits.simps
        digit_char_def)
  have z: "\<exists>app2. command_segment contain (\<lambda>d. []) ctx_users12 [] example_app (Some 0) ''.z'' =
        (Inr 1, app2) \<and>
      context (commands' app2 ! 1) = ctx_users12 \<and>
      parent (commands' app2 ! 1) = Some 0 \<and>
      commandMap' app2 ''y.z'' = Some 1"
    using command_segment_registration [where cont = contain and parseArguments = "\<lambda>d. []"
        and this = ctx_users12 and d = "[]" and app = example_app and p = 0
        and segment = "''.z''" and n = "''y.z''" and ?context1.0 = ctx_users12] inter
    by (simp add: segment_name_def example_app_def example_command_def noopIdentifier_text
        ctx_users12_def toLowerCase_def lower_char_def)
  show ?thesis
    using y path z_noop z unfolding app_x_def by (intro conjI)
qed

end
